theory Spec2Isabelle
  imports Complex_Main "HOL-Library.Word"
begin

section \<open>JavaScript values\<close>

text \<open>
  A JavaScript string is a sequence of UTF-16 code units: \<open>length\<close>, \<open>substring\<close> and
  \<open>trim\<close> count and cut code units. Identifiers of rows (block, conversation and user
  ids) and property keys are opaque tokens and are kept as \<open>string\<close>.
\<close>

type_synonym jsstring = "16 word list"

definition js :: "string \<Rightarrow> jsstring" where
  "js s = map (\<lambda>c. of_nat (of_char c)) s"

text \<open>
  The values a parsed JSON payload and the lookups on it can yield. Numbers are the finite
  ones and \<open>NaN\<close>; no arithmetic is done on chart values by the code modelled here.
\<close>

datatype jsval =
    JUndefined
  | JNull
  | JBool bool
  | JNum rat
  | JNaN
  | JStr jsstring
  | JArr "jsval list"
  | JObj "(string \<times> jsval) list"

fun truthy :: "jsval \<Rightarrow> bool" where
  "truthy JUndefined = False"
| "truthy JNull = False"
| "truthy (JBool b) = b"
| "truthy (JNum r) = (r \<noteq> 0)"
| "truthy JNaN = False"
| "truthy (JStr s) = (s \<noteq> [])"
| "truthy (JArr _) = True"
| "truthy (JObj _) = True"

text \<open>\<open>a || b\<close>\<close>

definition js_or :: "jsval \<Rightarrow> jsval \<Rightarrow> jsval" where
  "js_or a b = (if truthy a then a else b)"

section \<open>The blocks table\<close>

text \<open>
  One row of the \<open>blocks\<close> table, with the columns that the INSERT of the dashboards
  router names and that shared/schema.ts declares (where the creator is \<open>created_by_id\<close>).
  The two timestamp columns are left out: no operation below reads them. Every row kept
  here belongs to a dashboard, and a description that is NULL is written as the empty
  string: nothing below reads a stored description.
\<close>

record block =
  block_id :: string
  dashboard_id :: int
  title :: string
  description :: string
  block_type :: string
  block_size :: int
  content :: jsval
  position :: int
  creator_id :: string

type_synonym blocks_table = "block list"

text \<open>\<open>UPDATE blocks SET ... WHERE cond\<close>, \<open>DELETE FROM blocks WHERE cond\<close>, \<open>SELECT\<close>.\<close>

definition sql_update :: "(block \<Rightarrow> bool) \<Rightarrow> (block \<Rightarrow> block) \<Rightarrow> blocks_table \<Rightarrow> blocks_table" where
  "sql_update cond f tbl = map (\<lambda>b. if cond b then f b else b) tbl"

definition sql_delete :: "(block \<Rightarrow> bool) \<Rightarrow> blocks_table \<Rightarrow> blocks_table" where
  "sql_delete cond tbl = filter (\<lambda>b. \<not> cond b) tbl"

definition sql_select :: "(block \<Rightarrow> bool) \<Rightarrow> blocks_table \<Rightarrow> blocks_table" where
  "sql_select cond tbl = filter cond tbl"

text \<open>\<open>SELECT * FROM blocks WHERE id = $1\<close>, first row or nothing.\<close>

definition get_block :: "blocks_table \<Rightarrow> string \<Rightarrow> block option" where
  "get_block tbl i = (case sql_select (\<lambda>b. block_id b = i) tbl of [] \<Rightarrow> None | b # _ \<Rightarrow> Some b)"

text \<open>The positions of one dashboard's blocks, in table order.\<close>

definition positions_of :: "blocks_table \<Rightarrow> int \<Rightarrow> int list" where
  "positions_of tbl d = map position (sql_select (\<lambda>b. dashboard_id b = d) tbl)"

text \<open>
  The density property: the positions of the dashboard's \<open>N\<close> blocks are exactly
  \<open>0, ..., N - 1\<close>, none twice.
\<close>

definition is_dense :: "int list \<Rightarrow> bool" where
  "is_dense ps = (distinct ps \<and> set ps = {0 ..< int (length ps)})"

definition dense :: "blocks_table \<Rightarrow> int \<Rightarrow> bool" where
  "dense tbl d = is_dense (positions_of tbl d)"

section \<open>Deleting a block\<close>

datatype status = S200 | S201 | S400 | S401 | S404 | S500

text \<open>
  \<open>router.delete('/blocks/:id')\<close> of the dashboards router: 404 when the block does not
  exist, else \<open>DELETE FROM blocks WHERE id = $1\<close> and nothing more.
\<close>

definition router_delete_block :: "blocks_table \<Rightarrow> string \<Rightarrow> status \<times> blocks_table" where
  "router_delete_block tbl i =
     (case get_block tbl i of
        None \<Rightarrow> (S404, tbl)
      | Some b \<Rightarrow> (S200, sql_delete (\<lambda>b. block_id b = i) tbl))"

text \<open>\<open>DatabaseStorage.deleteBlock\<close>: \<open>db.delete(blocks).where(eq(blocks.id, id))\<close>.\<close>

definition deleteBlock :: "blocks_table \<Rightarrow> string \<Rightarrow> blocks_table" where
  "deleteBlock tbl i = sql_delete (\<lambda>b. block_id b = i) tbl"

text \<open>\<open>app.delete('/api/blocks/:id')\<close> of routes.ts.\<close>

definition api_delete_block :: "blocks_table \<Rightarrow> string \<Rightarrow> status \<times> blocks_table" where
  "api_delete_block tbl i = (S200, deleteBlock tbl i)"

section \<open>Creating a block\<close>

text \<open>The \<open>position\<close> field of a request body: absent, \<open>null\<close>, or a number.\<close>

datatype pos_arg = PUndefined | PNull | PVal int

text \<open>
  The other fields of the body of a creation request. \<open>None\<close> is an absent field; the
  handlers default each field with \<open>||\<close>, so an empty string and a size of 0 are
  replaced too.
\<close>

record block_body =
  body_title :: "string option"
  body_description :: "string option"
  body_type :: "string option"
  body_size :: "int option"
  body_content :: jsval

definition str_or :: "string option \<Rightarrow> string \<Rightarrow> string" where
  "str_or v dflt = (case v of None \<Rightarrow> dflt | Some s \<Rightarrow> if s = [] then dflt else s)"

definition int_or :: "int option \<Rightarrow> int \<Rightarrow> int" where
  "int_or v dflt = (case v of None \<Rightarrow> dflt | Some n \<Rightarrow> if n = 0 then dflt else n)"

text \<open>\<open>SELECT MAX(position) FROM blocks WHERE dashboard_id = $1\<close>: \<open>NULL\<close> on no rows.\<close>

definition max_position :: "blocks_table \<Rightarrow> int \<Rightarrow> int option" where
  "max_position tbl d =
     (case positions_of tbl d of [] \<Rightarrow> None | p # ps \<Rightarrow> Some (fold max ps p))"

text \<open>
  \<open>INSERT INTO blocks\<close>: the id column is the primary key, so a row whose id is
  already in the table is refused. The sources declare no more of the table that the
  router's SQL writes; what shared/schema.ts declares for the storage layer comes with
  \<open>createBlock\<close> and \<open>updateBlock\<close> below.
\<close>

definition sql_insert :: "block \<Rightarrow> blocks_table \<Rightarrow> blocks_table option" where
  "sql_insert b tbl = (if block_id b \<in> set (map block_id tbl) then None else Some (tbl @ [b]))"

text \<open>
  The state: the ids of the rows of \<open>dashboards\<close> and of \<open>users\<close>, and the \<open>blocks\<close>
  table.
\<close>

record db =
  dashboards :: "int list"
  users :: "string list"
  blocks :: blocks_table

text \<open>
  \<open>router.post('/dashboards/:dashboardId/blocks')\<close> of the dashboards router. The id
  (\<open>block_<time>_<random>\<close>) and the authenticated user are parameters. The statements run
  one after the other with no transaction: when the INSERT is refused, the shift stays.
\<close>

definition router_row :: "int \<Rightarrow> block_body \<Rightarrow> int \<Rightarrow> string \<Rightarrow> string \<Rightarrow> block" where
  "router_row dashboardId body blockPosition new_id user =
     \<lparr>block_id = new_id, dashboard_id = dashboardId,
      title = str_or (body_title body) ''Untitled Block'',
      description = str_or (body_description body) ''Add a description'',
      block_type = str_or (body_type body) ''ai'',
      block_size = int_or (body_size body) 4,
      content = js_or (body_content body) (JStr []),
      position = blockPosition, creator_id = user\<rparr>"

definition router_create_block ::
  "db \<Rightarrow> int \<Rightarrow> block_body \<Rightarrow> pos_arg \<Rightarrow> string \<Rightarrow> string \<Rightarrow> (status \<times> block option) \<times> db" where
  "router_create_block s dashboardId body pos new_id user =
     (if dashboardId \<notin> set (dashboards s) then ((S404, None), s)
      else
        let (blockPosition, tbl1) =
          (case pos of
             PVal p \<Rightarrow> (p, sql_update (\<lambda>b. dashboard_id b = dashboardId \<and> position b \<ge> p)
                                      (\<lambda>b. b\<lparr>position := position b + 1\<rparr>) (blocks s))
           | _ \<Rightarrow> (int_or (max_position (blocks s) dashboardId) (-1) + 1, blocks s));
          row = router_row dashboardId body blockPosition new_id user
        in (case sql_insert row tbl1 of
              None \<Rightarrow> ((S500, None), s\<lparr>blocks := tbl1\<rparr>)
            | Some tbl2 \<Rightarrow> ((S201, Some row), s\<lparr>blocks := tbl2\<rparr>)))"

section \<open>The storage layer\<close>

text \<open>
  \<open>DatabaseStorage\<close> writes the table \<open>blocks\<close> as shared/schema.ts declares it, and the
  database holds it to the declaration. \<open>size\<close> and \<open>position\<close> are \<open>integer\<close> columns, of
  32 bits. \<open>title\<close> is \<open>varchar(255)\<close> and \<open>type\<close> is \<open>varchar(50)\<close>: a longer string is
  refused, unless all that exceeds the length is spaces, which are then cut off.
  \<open>dashboard_id\<close> references \<open>dashboards.id\<close>, \<open>created_by_id\<close> references \<open>users.id\<close>, and
  \<open>id\<close> is the primary key.
\<close>

definition int32 :: "int \<Rightarrow> bool" where
  "int32 n = (- 2147483648 \<le> n \<and> n \<le> 2147483647)"

text \<open>A string that a \<open>varchar(n)\<close> column takes; it is stored as its first \<open>n\<close> characters.\<close>

definition fits :: "nat \<Rightarrow> string \<Rightarrow> bool" where
  "fits n s = list_all (\<lambda>c. c = CHR '' '') (drop n s)"

text \<open>A row as the columns store it, or nothing when a value is refused.\<close>

definition as_stored :: "block \<Rightarrow> block option" where
  "as_stored b =
     (if fits 255 (title b) \<and> fits 50 (block_type b) \<and> int32 (block_size b) \<and> int32 (position b)
      then Some (b\<lparr>title := take 255 (title b), block_type := take 50 (block_type b)\<rparr>)
      else None)"

text \<open>
  \<open>createBlock\<close>: \<open>db.insert(blocks).values(block).returning()\<close>. The result is the
  stored row and the new state, or nothing when the database refuses the row and the call
  throws.
\<close>

definition createBlock :: "db \<Rightarrow> block \<Rightarrow> (block \<times> db) option" where
  "createBlock s b =
     (case as_stored b of
        None \<Rightarrow> None
      | Some r \<Rightarrow>
          if dashboard_id r \<in> set (dashboards s) \<and> creator_id r \<in> set (users s) then
            (case sql_insert r (blocks s) of
               None \<Rightarrow> None
             | Some tbl \<Rightarrow> Some (r, s\<lparr>blocks := tbl\<rparr>))
          else None)"

definition getBlocksByDashboard :: "blocks_table \<Rightarrow> int \<Rightarrow> block list" where
  "getBlocksByDashboard tbl d = sort_key position (sql_select (\<lambda>b. dashboard_id b = d) tbl)"

text \<open>
  The \<open>updates\<close> of \<open>updateBlock(id, updates)\<close>: each column other than the id is absent
  or carries a value of the column's type.
\<close>

record block_updates =
  upd_dashboardId :: "int option"
  upd_title :: "string option"
  upd_description :: "string option"
  upd_type :: "string option"
  upd_size :: "int option"
  upd_content :: "jsval option"
  upd_position :: "int option"
  upd_createdById :: "string option"

definition no_updates :: block_updates where
  "no_updates = \<lparr>upd_dashboardId = None, upd_title = None, upd_description = None,
     upd_type = None, upd_size = None, upd_content = None, upd_position = None,
     upd_createdById = None\<rparr>"

text \<open>\<open>{ position: p }\<close>\<close>

definition only_position :: "int \<Rightarrow> block_updates" where
  "only_position p = no_updates\<lparr>upd_position := Some p\<rparr>"

text \<open>The values of an update that the columns take, and the row they make of a row.\<close>

definition values_fit :: "block_updates \<Rightarrow> bool" where
  "values_fit u =
     ((case upd_title u of None \<Rightarrow> True | Some v \<Rightarrow> fits 255 v)
      \<and> (case upd_type u of None \<Rightarrow> True | Some v \<Rightarrow> fits 50 v)
      \<and> (case upd_size u of None \<Rightarrow> True | Some v \<Rightarrow> int32 v)
      \<and> (case upd_position u of None \<Rightarrow> True | Some v \<Rightarrow> int32 v))"

definition set_columns :: "block_updates \<Rightarrow> block \<Rightarrow> block" where
  "set_columns u b =
     b\<lparr>dashboard_id := (case upd_dashboardId u of None \<Rightarrow> dashboard_id b | Some v \<Rightarrow> v),
       title := (case upd_title u of None \<Rightarrow> title b | Some v \<Rightarrow> take 255 v),
       description := (case upd_description u of None \<Rightarrow> description b | Some v \<Rightarrow> v),
       block_type := (case upd_type u of None \<Rightarrow> block_type b | Some v \<Rightarrow> take 50 v),
       block_size := (case upd_size u of None \<Rightarrow> block_size b | Some v \<Rightarrow> v),
       content := (case upd_content u of None \<Rightarrow> content b | Some v \<Rightarrow> v),
       position := (case upd_position u of None \<Rightarrow> position b | Some v \<Rightarrow> v),
       creator_id := (case upd_createdById u of None \<Rightarrow> creator_id b | Some v \<Rightarrow> v)\<rparr>"

text \<open>
  A reference written by an update is checked when it differs from the one the row had.
\<close>

definition references_hold :: "db \<Rightarrow> block \<Rightarrow> block \<Rightarrow> bool" where
  "references_hold s old new =
     ((dashboard_id new = dashboard_id old \<or> dashboard_id new \<in> set (dashboards s))
      \<and> (creator_id new = creator_id old \<or> creator_id new \<in> set (users s)))"

text \<open>
  \<open>updateBlock\<close>: \<open>db.update(blocks).set({...updates, updatedAt}).where(eq(blocks.id,
  id)).returning()\<close>. The values are brought to the types of their columns before any
  row is looked at, so a value that a column refuses makes the call throw (nothing)
  whether or not a row has the id; so does a reference that does not hold. Otherwise the
  call yields the updated row, or no row when the id is not in the table.
\<close>

definition updateBlock :: "db \<Rightarrow> string \<Rightarrow> block_updates \<Rightarrow> (block option \<times> db) option" where
  "updateBlock s i u =
     (if values_fit u then
        (case get_block (blocks s) i of
           None \<Rightarrow> Some (None, s)
         | Some b \<Rightarrow>
             if references_hold s b (set_columns u b) then
               Some (Some (set_columns u b),
                     s\<lparr>blocks := sql_update (\<lambda>x. block_id x = i) (set_columns u) (blocks s)\<rparr>)
             else None)
      else None)"

section \<open>Writing blocks through routes.ts\<close>

text \<open>
  \<open>for (const existingBlock of existingBlocks) await storage.updateBlock(existingBlock.id,
  {position: existingBlock.position + 1})\<close>: the positions written are those read before
  the loop. The loop is left at the first call that throws, with the rows before it
  already written; the result tells whether the loop came to its end.
\<close>

fun shift_existing :: "block list \<Rightarrow> db \<Rightarrow> bool \<times> db" where
  "shift_existing [] s = (True, s)"
| "shift_existing (e # es) s =
     (case updateBlock s (block_id e) (only_position (position e + 1)) of
        None \<Rightarrow> (False, s)
      | Some (_, s1) \<Rightarrow> shift_existing es s1)"

text \<open>
  \<open>app.post('/api/dashboards/:id/blocks')\<close> of routes.ts. Only an absent position
  (\<open>undefined\<close>) takes the first branch; \<open>null\<close> reaches the INSERT, where the column is
  NOT NULL. Whatever throws is answered with 500, and what was written before stays: there
  is no transaction.
\<close>

definition api_row :: "int \<Rightarrow> block_body \<Rightarrow> int \<Rightarrow> string \<Rightarrow> string \<Rightarrow> block" where
  "api_row dashboardId body blockPosition new_id user =
     \<lparr>block_id = new_id, dashboard_id = dashboardId,
      title = str_or (body_title body) ''New Block'',
      description = str_or (body_description body) [],
      block_type = str_or (body_type body) ''ai'',
      block_size = int_or (body_size body) 4,
      content = js_or (body_content body) (JObj []),
      position = blockPosition, creator_id = user\<rparr>"

definition api_create_block ::
  "db \<Rightarrow> int \<Rightarrow> block_body \<Rightarrow> pos_arg \<Rightarrow> string \<Rightarrow> string \<Rightarrow> (status \<times> block option) \<times> db" where
  "api_create_block s dashboardId body pos new_id user =
     (let (blockPosition, shifted, s1) =
        (case pos of
           PUndefined \<Rightarrow> (PVal 0, shift_existing (getBlocksByDashboard (blocks s) dashboardId) s)
         | _ \<Rightarrow> (pos, True, s))
      in if shifted then
           (case blockPosition of
              PVal p \<Rightarrow>
                (case createBlock s1 (api_row dashboardId body p new_id user) of
                   None \<Rightarrow> ((S500, None), s1)
                 | Some (row, s2) \<Rightarrow> ((S200, Some row), s2))
            | _ \<Rightarrow> ((S500, None), s1))
         else ((S500, None), s1))"

text \<open>
  \<open>app.post('/api/blocks')\<close>: the body, with the user as \<open>createdById\<close>, is parsed by
  \<open>insertBlockSchema\<close>, the schema made from the table's columns: it wants an id and a
  title, leaves the other fields free, and holds a string to the length and a number to
  the range of its column. The parsed row goes to \<open>createBlock\<close>, where an absent field
  takes the column's default (type \<open>ai\<close>, size 4, content \<open>{}\<close>, position 0). Nothing
  is shifted. The bodies kept here name their dashboard; a description that is absent is
  stored as NULL, written \<open>[]\<close>.
\<close>

record insert_block =
  ins_id :: "string option"
  ins_dashboardId :: int
  ins_title :: "string option"
  ins_description :: "string option"
  ins_type :: "string option"
  ins_size :: "int option"
  ins_content :: "jsval option"
  ins_position :: "int option"

definition insertBlockSchema :: "insert_block \<Rightarrow> bool" where
  "insertBlockSchema body =
     ((case ins_title body of None \<Rightarrow> False | Some v \<Rightarrow> length v \<le> 255)
      \<and> (case ins_type body of None \<Rightarrow> True | Some v \<Rightarrow> length v \<le> 50)
      \<and> (case ins_size body of None \<Rightarrow> True | Some v \<Rightarrow> int32 v)
      \<and> (case ins_position body of None \<Rightarrow> True | Some v \<Rightarrow> int32 v))"

definition api_post_block :: "db \<Rightarrow> insert_block \<Rightarrow> string \<Rightarrow> (status \<times> block option) \<times> db" where
  "api_post_block s body user =
     (case (ins_id body, ins_title body) of
        (Some i, Some t) \<Rightarrow>
          if insertBlockSchema body then
            (case createBlock s
                    \<lparr>block_id = i, dashboard_id = ins_dashboardId body, title = t,
                     description = (case ins_description body of None \<Rightarrow> [] | Some v \<Rightarrow> v),
                     block_type = (case ins_type body of None \<Rightarrow> ''ai'' | Some v \<Rightarrow> v),
                     block_size = (case ins_size body of None \<Rightarrow> 4 | Some v \<Rightarrow> v),
                     content = (case ins_content body of None \<Rightarrow> JObj [] | Some v \<Rightarrow> v),
                     position = (case ins_position body of None \<Rightarrow> 0 | Some v \<Rightarrow> v),
                     creator_id = user\<rparr> of
               None \<Rightarrow> ((S500, None), s)
             | Some (row, s1) \<Rightarrow> ((S200, Some row), s1))
          else ((S500, None), s)
      | _ \<Rightarrow> ((S500, None), s))"

text \<open>
  \<open>app.post('/api/ai/generate-block')\<close>: a block of size 6 at position 0, with nothing
  shifted. The id (\<open>ai_block_<time>\<close>), the time of the request and the user are
  parameters; the prompt is a string.
\<close>

definition api_generate_block ::
  "db \<Rightarrow> int \<Rightarrow> string \<Rightarrow> string \<Rightarrow> string \<Rightarrow> string \<Rightarrow> (status \<times> block option) \<times> db" where
  "api_generate_block s dashboardId prompt now new_id user =
     (case createBlock s
             \<lparr>block_id = new_id, dashboard_id = dashboardId, title = ''AI Generated Block'',
              description = ''Generated from: '' @ [CHR 0x22] @ prompt @ [CHR 0x22],
              block_type = ''ai'', block_size = 6,
              content = JObj [(''prompt'', JStr (js prompt)), (''generatedAt'', JStr (js now))],
              position = 0, creator_id = user\<rparr> of
        None \<Rightarrow> ((S500, None), s)
      | Some (row, s1) \<Rightarrow> ((S200, Some row), s1))"

text \<open>
  \<open>app.put('/api/blocks/:id')\<close> and \<open>app.patch('/api/blocks/:id')\<close>, which are alike: the
  body goes to \<open>updateBlock\<close> as it is, a position or a dashboard in it included.
\<close>

definition api_update_block :: "db \<Rightarrow> string \<Rightarrow> block_updates \<Rightarrow> (status \<times> block option) \<times> db" where
  "api_update_block s i updates =
     (case updateBlock s i updates of
        None \<Rightarrow> ((S500, None), s)
      | Some (None, s1) \<Rightarrow> ((S404, None), s1)
      | Some (Some row, s1) \<Rightarrow> ((S200, Some row), s1))"

section \<open>Moving and reordering\<close>

text \<open>
  \<open>UPDATE blocks SET title = COALESCE($1, title), ..., position = COALESCE($6, position)
  WHERE id = $7\<close>: a column keeps its value where the body has no value for it (an absent
  field reaches SQL as NULL), and takes the body's value otherwise.
\<close>

definition coalesce_row :: "block_body \<Rightarrow> pos_arg \<Rightarrow> block \<Rightarrow> block" where
  "coalesce_row body pos b =
     b\<lparr>title := (case body_title body of None \<Rightarrow> title b | Some v \<Rightarrow> v),
       description := (case body_description body of None \<Rightarrow> description b | Some v \<Rightarrow> v),
       block_type := (case body_type body of None \<Rightarrow> block_type b | Some v \<Rightarrow> v),
       block_size := (case body_size body of None \<Rightarrow> block_size b | Some v \<Rightarrow> v),
       content := (if body_content body = JUndefined \<or> body_content body = JNull then content b
                   else body_content body),
       position := (case pos of PVal p \<Rightarrow> p | _ \<Rightarrow> position b)\<rparr>"

text \<open>
  \<open>router.put('/blocks/:id')\<close> of the dashboards router: 404 when the block does not
  exist; when the body carries a position other than the block's, the blocks between the
  old and the new position are shifted; then the row is rewritten. A \<open>null\<close> position
  enters the shift branch, where every SQL comparison with NULL selects no row.
\<close>

definition router_update_block ::
  "blocks_table \<Rightarrow> string \<Rightarrow> block_body \<Rightarrow> pos_arg \<Rightarrow> status \<times> blocks_table" where
  "router_update_block tbl i body pos =
     (case get_block tbl i of
        None \<Rightarrow> (S404, tbl)
      | Some blk \<Rightarrow>
          (let oldPosition = position blk; d = dashboard_id blk;
               tbl1 =
                 (case pos of
                    PVal newPosition \<Rightarrow>
                      (if newPosition = oldPosition then tbl
                       else if newPosition > oldPosition then
                         sql_update (\<lambda>b. dashboard_id b = d \<and> position b > oldPosition \<and> position b \<le> newPosition)
                                    (\<lambda>b. b\<lparr>position := position b - 1\<rparr>) tbl
                       else
                         sql_update (\<lambda>b. dashboard_id b = d \<and> position b \<ge> newPosition \<and> position b < oldPosition)
                                    (\<lambda>b. b\<lparr>position := position b + 1\<rparr>) tbl)
                  | _ \<Rightarrow> tbl)
           in (S200, sql_update (\<lambda>b. block_id b = i) (coalesce_row body pos) tbl1)))"

text \<open>
  The loop shared by \<open>router.put('/dashboards/:dashboardId/blocks/reorder')\<close> and
  \<open>DatabaseStorage.reorderBlocks\<close>: for \<open>i\<close> from 0,
  \<open>UPDATE blocks SET position = i WHERE id = blockOrder[i] AND dashboard_id = dashboardId\<close>.
\<close>

fun reorder_from :: "nat \<Rightarrow> int \<Rightarrow> string list \<Rightarrow> blocks_table \<Rightarrow> blocks_table" where
  "reorder_from i d [] tbl = tbl"
| "reorder_from i d (x # xs) tbl =
     reorder_from (Suc i) d xs
       (sql_update (\<lambda>b. block_id b = x \<and> dashboard_id b = d) (\<lambda>b. b\<lparr>position := int i\<rparr>) tbl)"

definition reorderBlocks :: "blocks_table \<Rightarrow> int \<Rightarrow> string list \<Rightarrow> blocks_table" where
  "reorderBlocks tbl d blockOrder = reorder_from 0 d blockOrder tbl"

text \<open>
  The router's handler: \<open>blockOrder\<close> is \<open>None\<close> when the body's field is not an array
  (400); 404 when the dashboard does not exist; else the loop, and 200.
\<close>

definition router_reorder :: "db \<Rightarrow> int \<Rightarrow> string list option \<Rightarrow> status \<times> db" where
  "router_reorder s dashboardId blockOrder =
     (case blockOrder of
        None \<Rightarrow> (S400, s)
      | Some order \<Rightarrow>
          if dashboardId \<notin> set (dashboards s) then (S404, s)
          else (S200, s\<lparr>blocks := reorder_from 0 dashboardId order (blocks s)\<rparr>))"

text \<open>
  \<open>app.put('/api/dashboards/:id/blocks/reorder')\<close> of routes.ts: \<open>blockOrder.length\<close> on
  a missing field throws inside the try block (500).
\<close>

definition api_reorder :: "blocks_table \<Rightarrow> int \<Rightarrow> string list option \<Rightarrow> status \<times> blocks_table" where
  "api_reorder tbl dashboardId blockOrder =
     (case blockOrder of
        None \<Rightarrow> (S500, tbl)
      | Some order \<Rightarrow> (S200, reorderBlocks tbl dashboardId order))"

text \<open>
  The index a reorder list gives to an id: counted from \<open>i\<close>, the index of the last
  occurrence of the id, or nothing when the id is not listed.
\<close>

fun last_index_from :: "nat \<Rightarrow> string \<Rightarrow> string list \<Rightarrow> nat option" where
  "last_index_from i x [] = None"
| "last_index_from i x (y # ys) =
     (case last_index_from (Suc i) x ys of
        Some k \<Rightarrow> Some k
      | None \<Rightarrow> if x = y then Some i else None)"

text \<open>A block after a reorder, in those terms.\<close>

definition reordered :: "nat \<Rightarrow> int \<Rightarrow> string list \<Rightarrow> block \<Rightarrow> block" where
  "reordered i d order b =
     (if dashboard_id b = d then
        (case last_index_from i (block_id b) order of
           Some k \<Rightarrow> b\<lparr>position := int k\<rparr>
         | None \<Rightarrow> b)
      else b)"

section \<open>Sequences of block operations\<close>

text \<open>
  The requests that write blocks, each with the forms its body can take. Through the
  dashboards router: \<open>router.post('/dashboards/:dashboardId/blocks')\<close>,
  \<open>router.put('/blocks/:id')\<close>, \<open>router.delete('/blocks/:id')\<close> and the router's reorder.
  Through routes.ts and the storage layer: \<open>app.post('/api/dashboards/:id/blocks')\<close>,
  \<open>app.delete('/api/blocks/:id')\<close>, the reorder, \<open>app.post('/api/blocks')\<close>,
  \<open>app.post('/api/ai/generate-block')\<close>, and \<open>app.put\<close> or \<open>app.patch('/api/blocks/:id')\<close>.
  Each is run through its handler; the handler's answer is dropped and the state kept.
\<close>

datatype block_op =
    Create int block_body pos_arg string string
  | Update string block_body pos_arg
  | Delete string
  | Reorder int "string list option"
  | Api_create int block_body pos_arg string string
  | Api_delete string
  | Api_reorder int "string list option"
  | Api_post insert_block string
  | Api_generate int string string string string
  | Api_update string block_updates

fun apply_op :: "db \<Rightarrow> block_op \<Rightarrow> db" where
  "apply_op s (Create d body pos i u) = snd (router_create_block s d body pos i u)"
| "apply_op s (Update i body pos) = s\<lparr>blocks := snd (router_update_block (blocks s) i body pos)\<rparr>"
| "apply_op s (Delete i) = s\<lparr>blocks := snd (router_delete_block (blocks s) i)\<rparr>"
| "apply_op s (Reorder d order) = snd (router_reorder s d order)"
| "apply_op s (Api_create d body pos i u) = snd (api_create_block s d body pos i u)"
| "apply_op s (Api_delete i) = s\<lparr>blocks := snd (api_delete_block (blocks s) i)\<rparr>"
| "apply_op s (Api_reorder d order) = s\<lparr>blocks := snd (api_reorder (blocks s) d order)\<rparr>"
| "apply_op s (Api_post body u) = snd (api_post_block s body u)"
| "apply_op s (Api_generate d q now i u) = snd (api_generate_block s d q now i u)"
| "apply_op s (Api_update i updates) = snd (api_update_block s i updates)"

fun run_ops :: "db \<Rightarrow> block_op list \<Rightarrow> db" where
  "run_ops s [] = s"
| "run_ops s (x # xs) = run_ops (apply_op s x) xs"

text \<open>
  Where a move from \<open>old\<close> to \<open>new\<close> sends position \<open>q\<close>: the moved block goes to
  \<open>new\<close>, the positions between the two close up towards \<open>old\<close>, the others stay.
\<close>

definition move_fn :: "int \<Rightarrow> int \<Rightarrow> int \<Rightarrow> int" where
  "move_fn old new q =
     (if q = old then new
      else if old < q \<and> q \<le> new then q - 1
      else if new \<le> q \<and> q < old then q + 1
      else q)"

text \<open>A row after the move of block \<open>b\<close>, of id \<open>i\<close>, to position \<open>p\<close>.\<close>

definition moved_row :: "block \<Rightarrow> string \<Rightarrow> block_body \<Rightarrow> int \<Rightarrow> block \<Rightarrow> block" where
  "moved_row b i body p x =
     (if block_id x = i then coalesce_row body (PVal p) x
      else if dashboard_id x = dashboard_id b
      then x\<lparr>position := move_fn (position b) p (position x)\<rparr> else x)"


definition ids_of :: "blocks_table \<Rightarrow> int \<Rightarrow> string list" where
  "ids_of tbl d = map block_id (sql_select (\<lambda>b. dashboard_id b = d) tbl)"



section \<open>Chat history of a block\<close>

text \<open>One row of \<open>block_chat_history\<close>; \<open>generatedAt\<close> is a timestamp in milliseconds.\<close>

record chat_turn =
  turn_id :: string
  turn_block_id :: string
  question :: jsstring
  chartData :: jsval
  generatedAt :: int

text \<open>
  \<open>DatabaseStorage.getBlockChatHistory\<close>: the rows of the block,
  \<open>orderBy(desc(blockChatHistory.generatedAt))\<close>. The route
  \<open>GET /api/blocks/:blockId/chat-history\<close> answers with this list as it is, and the
  client's query holds it as \<open>chatHistory\<close>.
\<close>

definition getBlockChatHistory :: "chat_turn list \<Rightarrow> string \<Rightarrow> chat_turn list" where
  "getBlockChatHistory tbl blockId =
     sort_key (\<lambda>t. - generatedAt t) (filter (\<lambda>t. turn_block_id t = blockId) tbl)"

text \<open>\<open>xs.slice(-n)\<close>: the last \<open>n\<close> elements, all of them when there are fewer.\<close>

definition slice_last :: "nat \<Rightarrow> 'a list \<Rightarrow> 'a list" where
  "slice_last n xs = drop (length xs - n) xs"

text \<open>
  \<open>generateChartMutation\<close> (draggable-toolbar.tsx):
  \<open>const recentHistory = chatHistory.slice(-6).reverse()\<close>, sent as the \<open>chatHistory\<close>
  of the body of \<open>POST /api/ai/generate-chart\<close>, which hands it to the generation backend.
\<close>

definition recentHistory :: "chat_turn list \<Rightarrow> chat_turn list" where
  "recentHistory chatHistory = rev (slice_last 6 chatHistory)"

definition generation_context :: "chat_turn list \<Rightarrow> string \<Rightarrow> chat_turn list" where
  "generation_context tbl blockId = recentHistory (getBlockChatHistory tbl blockId)"

text \<open>
  The context in the words of the specification: the most recent turns, at most 6 of
  them, the most recent first.
\<close>

definition most_recent_first :: "nat \<Rightarrow> chat_turn list \<Rightarrow> string \<Rightarrow> chat_turn list" where
  "most_recent_first n tbl blockId = take n (getBlockChatHistory tbl blockId)"

section \<open>The Epesi Agent chat endpoint\<close>

text \<open>\<open>String.prototype.trim\<close> strips WhiteSpace and LineTerminator code units at both ends.\<close>

definition is_js_space :: "16 word \<Rightarrow> bool" where
  "is_js_space c =
     (c \<in> set [0x09, 0x0A, 0x0B, 0x0C, 0x0D, 0x20, 0xA0, 0x1680, 0x2028, 0x2029, 0x202F,
               0x205F, 0x3000, 0xFEFF]
      \<or> (0x2000 \<le> c \<and> c \<le> 0x200A))"

definition trim :: "jsstring \<Rightarrow> jsstring" where
  "trim s = rev (dropWhile is_js_space (rev (dropWhile is_js_space s)))"

text \<open>
  The \<open>i\<close> flag of a regular expression without the \<open>u\<close> flag compares the upper-case
  forms of two code units, and a unit from 128 on is never mapped below 128. The pattern
  here is ASCII only, so a unit from 128 on matches nothing in it whatever its upper-case
  form is; it is left as it is.
\<close>

definition canonicalize :: "16 word \<Rightarrow> 16 word" where
  "canonicalize c = (if 0x61 \<le> c \<and> c \<le> 0x7A then c - 0x20 else c)"

definition greeting_phrases :: "string list" where
  "greeting_phrases = [''hi'', ''hello'', ''hey'', ''good morning'', ''good afternoon'',
     ''good evening'', ''what's up'', ''how are you'', ''what can you do'', ''help'']"

text \<open>
  \<open>/^(hi|hello|...|help)$/i.test(s)\<close>: the whole of \<open>s\<close> matches one alternative,
  letter case ignored.
\<close>

definition greeting_test :: "jsstring \<Rightarrow> bool" where
  "greeting_test s = (map canonicalize s \<in> set (map (\<lambda>g. map canonicalize (js g)) greeting_phrases))"

definition isGreeting :: "jsstring \<Rightarrow> bool" where
  "isGreeting prompt = greeting_test (trim prompt)"

text \<open>The phrase "equals case-insensitively", in the words of the specification.\<close>

definition lower :: "16 word \<Rightarrow> 16 word" where
  "lower c = (if 0x41 \<le> c \<and> c \<le> 0x5A then c + 0x20 else c)"

definition equals_ignoring_case :: "jsstring \<Rightarrow> string \<Rightarrow> bool" where
  "equals_ignoring_case s g = (map lower s = map lower (js g))"

text \<open>
  \<open>const title = prompt.length > 50 ? prompt.substring(0, 50) + "..." : prompt\<close>
\<close>

definition conversation_title :: "jsstring \<Rightarrow> jsstring" where
  "conversation_title prompt = (if length prompt > 50 then take 50 prompt @ js ''...'' else prompt)"

text \<open>
  The answer to a greeting. Line feeds are the unit \<open>0x0A\<close>, the bullets \<open>0x2022\<close>.
\<close>

definition canned_response :: jsstring where
  "canned_response =
     js ''Hello! I'm Epesi Agent, your AI analytics assistant. I can help you:''
     @ [0x0A, 0x0A, 0x2022] @ js '' Analyze your data and generate insights''
     @ [0x0A, 0x2022] @ js '' Create various types of charts and visualizations''
     @ [0x0A, 0x2022] @ js '' Answer questions about your data''
     @ [0x0A, 0x2022] @ js '' Generate comprehensive reports''
     @ [0x0A, 0x0A] @ js ''What would you like to explore today?''"

record conversation =
  conv_id :: string
  conv_dashboard_id :: int
  conv_title :: jsstring
  created_by_id :: string

record message =
  conversation_id :: string
  role :: string
  msg_content :: jsstring
  metadata_charts :: "jsval list option"

text \<open>
  What the handler hands to \<open>generateEpesiAgentResponse\<close> (server/openai, outside this
  development). The two context strings are put together from the data sources of the
  organization with \<open>JSON.stringify\<close>, or from a fixed sample when that gives nothing; they
  do not depend on the prompt or on the conversation and are a parameter of the handler.
\<close>

record generation_args =
  gen_prompt :: jsstring
  dataContext :: jsstring
  sampleData :: jsstring
  chartCount :: nat

text \<open>A row of \<open>dashboards\<close>: the handler reads nothing of it but its existence.\<close>

record dashboard =
  dash_id :: int

text \<open>
  The ways the call of the backend can throw, as the handler's \<open>catch\<close> tells them
  apart by the error message.
\<close>

datatype backend_error = Unauthorized | Not_found | Other_error

type_synonym backend = "generation_args \<Rightarrow> backend_error + (jsstring \<times> jsval list)"

record agent_state =
  dashboard_rows :: "dashboard list"
  conversations :: "conversation list"
  messages :: "message list"
  backend_calls :: "generation_args list"

record chat_request =
  prompt :: jsstring
  dashboardId :: "int option"
  conversationId :: "string option"

datatype chat_response =
    Failure status
  | Reply jsstring "jsval list" string

definition getDashboard :: "agent_state \<Rightarrow> int \<Rightarrow> dashboard option" where
  "getDashboard s i = find (\<lambda>d. dash_id d = i) (dashboard_rows s)"

definition getEpesiConversation :: "agent_state \<Rightarrow> string \<Rightarrow> conversation option" where
  "getEpesiConversation s i = find (\<lambda>c. conv_id c = i) (conversations s)"

definition createEpesiMessage :: "message \<Rightarrow> agent_state \<Rightarrow> agent_state" where
  "createEpesiMessage m s = s\<lparr>messages := messages s @ [m]\<rparr>"

text \<open>
  The rest of the handler once the conversation is known: the user's message is saved,
  then the greeting test decides between the canned answer and the backend. Each call of
  the backend is logged in \<open>backend_calls\<close>. After a successful call the handler also
  touches the conversation's \<open>updatedAt\<close>, a column not kept here.
\<close>

definition chat_in_conversation ::
  "backend \<Rightarrow> jsstring \<times> jsstring \<Rightarrow> conversation \<Rightarrow> jsstring \<Rightarrow> agent_state \<Rightarrow> chat_response \<times> agent_state" where
  "chat_in_conversation gen ctx conv p s0 =
     (let s1 = createEpesiMessage
                 \<lparr>conversation_id = conv_id conv, role = ''user'', msg_content = p,
                  metadata_charts = None\<rparr> s0
      in if isGreeting p then
           (Reply canned_response [] (conv_id conv),
            createEpesiMessage
              \<lparr>conversation_id = conv_id conv, role = ''assistant'',
               msg_content = canned_response, metadata_charts = None\<rparr> s1)
         else
           (let args = \<lparr>gen_prompt = p, dataContext = fst ctx, sampleData = snd ctx,
                        chartCount = 4\<rparr>;
                s2 = s1\<lparr>backend_calls := backend_calls s1 @ [args]\<rparr>
            in case gen args of
                 Inl Unauthorized \<Rightarrow> (Failure S401, s2)
               | Inl Not_found \<Rightarrow> (Failure S404, s2)
               | Inl Other_error \<Rightarrow> (Failure S500, s2)
               | Inr (response, charts) \<Rightarrow>
                   (Reply response charts (conv_id conv),
                    createEpesiMessage
                      \<lparr>conversation_id = conv_id conv, role = ''assistant'',
                       msg_content = response, metadata_charts = Some charts\<rparr> s2)))"

text \<open>
  The branch of the handler that opens a conversation: its title comes from the prompt.
  The id of the new conversation (\<open>conv_<time>_<random>\<close>) and the user are parameters;
  the id column is the primary key of \<open>epesi_conversations\<close>, so an id already there
  makes the INSERT throw (500).
\<close>

definition chat_in_new_conversation ::
  "backend \<Rightarrow> jsstring \<times> jsstring \<Rightarrow> string \<Rightarrow> string \<Rightarrow> dashboard \<Rightarrow> jsstring \<Rightarrow> agent_state
     \<Rightarrow> chat_response \<times> agent_state" where
  "chat_in_new_conversation gen ctx newConversationId userId dash p s =
     (if newConversationId \<in> set (map conv_id (conversations s)) then (Failure S500, s)
      else
        (let conv = \<lparr>conv_id = newConversationId, conv_dashboard_id = dash_id dash,
                      conv_title = conversation_title p, created_by_id = userId\<rparr>
         in chat_in_conversation gen ctx conv p (s\<lparr>conversations := conversations s @ [conv]\<rparr>)))"

text \<open>
  \<open>app.post('/api/epesi-agent/chat')\<close>. The body's prompt is a string; \<open>dashboardId\<close> is
  \<open>None\<close> when \<open>parseInt\<close> gives \<open>NaN\<close>; \<open>conversationId\<close> is tested for truthiness,
  so an empty string starts a new conversation as an absent one does.
\<close>

definition epesi_agent_chat ::
  "backend \<Rightarrow> jsstring \<times> jsstring \<Rightarrow> string \<Rightarrow> string \<Rightarrow> agent_state \<Rightarrow> chat_request
     \<Rightarrow> chat_response \<times> agent_state" where
  "epesi_agent_chat gen ctx newConversationId userId s req =
     (case dashboardId req of
        None \<Rightarrow> (Failure S400, s)
      | Some numericDashboardId \<Rightarrow>
          (case getDashboard s numericDashboardId of
             None \<Rightarrow> (Failure S404, s)
           | Some dash \<Rightarrow>
               (case conversationId req of
                  None \<Rightarrow> chat_in_new_conversation gen ctx newConversationId userId dash (prompt req) s
                | Some cid \<Rightarrow>
                    if cid = [] then
                      chat_in_new_conversation gen ctx newConversationId userId dash (prompt req) s
                    else
                      (case getEpesiConversation s cid of
                         None \<Rightarrow> (Failure S404, s)
                       | Some conv \<Rightarrow> chat_in_conversation gen ctx conv (prompt req) s))))"

section \<open>Chart payloads\<close>

text \<open>
  \<open>v.k\<close> for the keys read below. An object is its list of properties (the first binding
  of a key counts); arrays, strings and other primitives have none of these keys. The
  receivers in \<open>transformChartData\<close> are truthy, or reached through \<open>?.\<close>, so the read
  never throws.
\<close>

fun get_prop :: "jsval \<Rightarrow> string \<Rightarrow> jsval" where
  "get_prop (JObj kvs) k = (case map_of kvs k of None \<Rightarrow> JUndefined | Some v \<Rightarrow> v)"
| "get_prop _ k = JUndefined"

fun decimal :: "nat \<Rightarrow> string" where
  "decimal n = (if n < 10 then [char_of (48 + n)] else decimal (n div 10) @ [char_of (48 + n mod 10)])"

text \<open>\<open>v[i]\<close> for an index \<open>i\<close>.\<close>

fun js_index :: "jsval \<Rightarrow> nat \<Rightarrow> jsval" where
  "js_index (JArr xs) i = (if i < length xs then xs ! i else JUndefined)"
| "js_index (JStr s) i = (if i < length s then JStr [s ! i] else JUndefined)"
| "js_index (JObj kvs) i = get_prop (JObj kvs) (decimal i)"
| "js_index _ i = JUndefined"

datatype js_error = TypeError

text \<open>\<open>v.map((x, index) => f)\<close>: only an array has \<open>map\<close>.\<close>

fun js_map :: "jsval \<Rightarrow> (jsval \<Rightarrow> nat \<Rightarrow> jsval) \<Rightarrow> js_error + jsval list" where
  "js_map (JArr xs) f = Inr (map (\<lambda>(x, index). f x index) (zip xs [0 ..< length xs]))"
| "js_map _ f = Inl TypeError"

text \<open>The object \<open>{ name: n, value: v }\<close>.\<close>

definition name_value :: "jsval \<Rightarrow> jsval \<Rightarrow> jsval" where
  "name_value n v = JObj [(''name'', n), (''value'', v)]"

text \<open>\<open>transformChartData\<close> of smart-insights-modal.tsx.\<close>

definition transformChartData :: "jsval \<Rightarrow> js_error + jsval list" where
  "transformChartData chartPayload =
     (if \<not> truthy chartPayload then Inr []
      else if truthy (get_prop chartPayload ''labels'') \<and> truthy (get_prop chartPayload ''datasets'') then
        (let labels = get_prop chartPayload ''labels'';
             dataset = js_index (get_prop chartPayload ''datasets'') 0
         in if \<not> truthy dataset \<or> \<not> truthy (get_prop dataset ''data'') then Inr []
            else js_map labels
                   (\<lambda>label index. name_value label (js_or (js_index (get_prop dataset ''data'') index) (JNum 0))))
      else if truthy (get_prop chartPayload ''series'')
              \<and> truthy (js_index (get_prop chartPayload ''series'') 0) then
        (let series = js_index (get_prop chartPayload ''series'') 0;
             categories = js_or (get_prop (get_prop chartPayload ''xAxis'') ''categories'') (JArr []);
             data = js_or (get_prop series ''data'') (JArr [])
         in js_map categories
              (\<lambda>category index. name_value category (js_or (js_index data index) (JNum 0))))
      else Inr [])"

text \<open>
  \<open>transformChartData\<close> of draggable-toolbar.tsx, which probes other shapes. It needs a
  few more pieces of the language: \<open>typeof v\<close> being \<open>'object'\<close> or \<open>'number'\<close>,
  \<open>'name' in v\<close> (a TypeError on \<open>null\<close>), \<open>v.length > 0\<close>, and a property read on
  \<open>null\<close> or \<open>undefined\<close>, which throws.
\<close>

definition typeof_object :: "jsval \<Rightarrow> bool" where
  "typeof_object v = (case v of JNull \<Rightarrow> True | JArr _ \<Rightarrow> True | JObj _ \<Rightarrow> True | _ \<Rightarrow> False)"

definition typeof_number :: "jsval \<Rightarrow> bool" where
  "typeof_number v = (case v of JNum _ \<Rightarrow> True | JNaN \<Rightarrow> True | _ \<Rightarrow> False)"

definition name_in :: "jsval \<Rightarrow> js_error + bool" where
  "name_in v = (case v of JNull \<Rightarrow> Inl TypeError
                | JObj kvs \<Rightarrow> Inr (''name'' \<in> set (map fst kvs))
                | _ \<Rightarrow> Inr False)"

text \<open>
  \<open>v > 0\<close>. For a string, an array or an object the comparison goes through the
  language's conversion to a number, which is the parameter \<open>to_number\<close> (it yields a
  \<open>JNum\<close> or \<open>JNaN\<close>).
\<close>

definition positive :: "(jsval \<Rightarrow> jsval) \<Rightarrow> jsval \<Rightarrow> bool" where
  "positive to_number v =
     (case v of
        JNum r \<Rightarrow> r > 0
      | JBool b \<Rightarrow> b
      | JUndefined \<Rightarrow> False
      | JNull \<Rightarrow> False
      | JNaN \<Rightarrow> False
      | _ \<Rightarrow> (case to_number v of JNum r \<Rightarrow> r > 0 | _ \<Rightarrow> False))"

definition length_positive :: "(jsval \<Rightarrow> jsval) \<Rightarrow> jsval \<Rightarrow> bool" where
  "length_positive to_number v =
     (case v of
        JArr xs \<Rightarrow> xs \<noteq> []
      | JStr s \<Rightarrow> s \<noteq> []
      | JObj kvs \<Rightarrow> positive to_number (get_prop (JObj kvs) ''length'')
      | _ \<Rightarrow> False)"

definition nullish :: "jsval \<Rightarrow> bool" where
  "nullish v = (v = JUndefined \<or> v = JNull)"

text \<open>\<open>`Item ${index + 1}`\<close>\<close>

definition item_label :: "nat \<Rightarrow> jsval" where
  "item_label index = JStr (js ''Item '' @ js (decimal (index + 1)))"

definition toolbar_transformChartData :: "(jsval \<Rightarrow> jsval) \<Rightarrow> jsval \<Rightarrow> js_error + jsval list" where
  "toolbar_transformChartData to_number data =
     (if \<not> truthy data then Inr []
      else
        (case (case data of
                 JArr (x # xs) \<Rightarrow> if typeof_object x then name_in x else Inr False
               | _ \<Rightarrow> Inr False) of
           Inl e \<Rightarrow> Inl e
         | Inr True \<Rightarrow> (case data of JArr xs \<Rightarrow> Inr xs | _ \<Rightarrow> Inr [])
         | Inr False \<Rightarrow>
             if truthy (get_prop data ''labels'') \<and> truthy (get_prop data ''datasets'')
                \<and> length_positive to_number (get_prop data ''datasets'') then
               (let labels = get_prop data ''labels'';
                    first = js_index (get_prop data ''datasets'') 0
                in if nullish first then Inl TypeError
                   else
                     (let values = get_prop first ''data''
                      in case labels of
                           JArr ls \<Rightarrow>
                             if ls \<noteq> [] \<and> nullish values then Inl TypeError
                             else js_map labels
                                    (\<lambda>label index. name_value label (js_or (js_index values index) (JNum 0)))
                         | _ \<Rightarrow> Inl TypeError))
             else
               (case data of
                  JArr (x # xs) \<Rightarrow>
                    if typeof_number x then
                      js_map data (\<lambda>value index. name_value (item_label index) value)
                    else Inr []
                | _ \<Rightarrow> Inr [])))"

text \<open>
  The two wire shapes of the specification, carrying a label list and a value list:
  \<open>{labels, datasets: [{data}]}\<close> and \<open>{xAxis: {categories}, series: [{data}]}\<close>.
\<close>

definition labeled_shape :: "jsval list \<Rightarrow> jsval list \<Rightarrow> jsval" where
  "labeled_shape ls vs = JObj [(''labels'', JArr ls), (''datasets'', JArr [JObj [(''data'', JArr vs)]])]"

definition category_shape :: "jsval list \<Rightarrow> jsval list \<Rightarrow> jsval" where
  "category_shape ls vs =
     JObj [(''xAxis'', JObj [(''categories'', JArr ls)]), (''series'', JArr [JObj [(''data'', JArr vs)]])]"

text \<open>What becomes of the value at index \<open>i\<close> of a value list: \<open>data[i] || 0\<close>.\<close>

definition value_or_zero :: "jsval list \<Rightarrow> nat \<Rightarrow> jsval" where
  "value_or_zero vs i = (if i < length vs \<and> truthy (vs ! i) then vs ! i else JNum 0)"

section \<open>Example data\<close>

definition example_dashboard :: dashboard where
  "example_dashboard = \<lparr>dash_id = 7\<rparr>"

definition example_conversation :: conversation where
  "example_conversation = \<lparr>conv_id = ''conv_1'', conv_dashboard_id = 7, conv_title = js ''hello'',
     created_by_id = ''u1''\<rparr>"

definition example_context :: "jsstring \<times> jsstring" where
  "example_context = (js ''Data Source: Sample Sales Data'', js ''[]'')"

definition example_state :: agent_state where
  "example_state = \<lparr>dashboard_rows = [example_dashboard], conversations = [], messages = [],
     backend_calls = []\<rparr>"

definition example_backend :: backend where
  "example_backend args = Inr (js ''Here are your charts'', [])"

definition long_prompt :: jsstring where
  "long_prompt = js ''Show me sales by region across all quarters for the last two years''"

definition title_request :: chat_request where
  "title_request = \<lparr>prompt = long_prompt, dashboardId = Some 7, conversationId = None\<rparr>"

definition greeting_request :: chat_request where
  "greeting_request = \<lparr>prompt = js ''  Good Morning '', dashboardId = Some 7, conversationId = None\<rparr>"

definition example_block :: "string \<Rightarrow> int \<Rightarrow> int \<Rightarrow> block" where
  "example_block i d p = \<lparr>block_id = i, dashboard_id = d, title = ''Sales'', description = [],
     block_type = ''chart'', block_size = 4, content = JObj [], position = p, creator_id = ''u1''\<rparr>"

definition four_blocks :: blocks_table where
  "four_blocks = [example_block ''a'' 1 0, example_block ''b'' 1 1, example_block ''c'' 1 2,
     example_block ''d'' 1 3]"

definition three_blocks :: blocks_table where
  "three_blocks = [example_block ''a'' 1 0, example_block ''b'' 1 1, example_block ''c'' 1 2]"

definition example_turn :: "string \<Rightarrow> int \<Rightarrow> chat_turn" where
  "example_turn i t = \<lparr>turn_id = i, turn_block_id = ''b1'', question = js ''sales by region'',
     chartData = JNull, generatedAt = t\<rparr>"

definition two_turns :: "chat_turn list" where
  "two_turns = [example_turn ''t1'' 1000, example_turn ''t2'' 2000]"

definition seven_turns :: "chat_turn list" where
  "seven_turns = [example_turn ''t1'' 1000, example_turn ''t2'' 2000, example_turn ''t3'' 3000,
     example_turn ''t4'' 4000, example_turn ''t5'' 5000, example_turn ''t6'' 6000,
     example_turn ''t7'' 7000]"

definition labels_AB :: "jsval list" where
  "labels_AB = [JStr (js ''A''), JStr (js ''B'')]"

definition agent_body :: block_body where
  "agent_body = \<lparr>body_title = Some ''Sales by region'', body_description = Some ''Generated chart'',
     body_type = Some ''ai'', body_size = Some 4,
     body_content = JObj [(''chartData'', JObj [(''type'', JStr (js ''bar''))])]\<rparr>"

definition chart_body :: block_body where
  "chart_body = \<lparr>body_title = Some ''New chart Block'', body_description = None,
     body_type = Some ''chart'', body_size = Some 4, body_content = JObj []\<rparr>"

definition three_blocks_db :: db where
  "three_blocks_db = \<lparr>dashboards = [1], users = [''u1''], blocks = three_blocks\<rparr>"


definition overflow_db :: db where
  "overflow_db = \<lparr>dashboards = [1], users = [''u1''],
     blocks = [example_block ''a'' 1 5, example_block ''b'' 1 2147483647]\<rparr>"


text \<open>
  Three dashboards: the first with positions 0, 1, 2, the second with a gap (positions
  0 and 2), the third without blocks.
\<close>

definition two_dashboards :: db where
  "two_dashboards = \<lparr>dashboards = [1, 2, 3], users = [''u1''],
     blocks = three_blocks @ [example_block ''x'' 2 0, example_block ''y'' 2 2]\<rparr>"

definition text_post :: insert_block where
  "text_post = \<lparr>ins_id = Some ''q'', ins_dashboardId = 1, ins_title = Some ''New text Block'',
     ins_description = Some ''A new text block for your dashboard'', ins_type = Some ''text'',
     ins_size = Some 4, ins_content = Some (JObj []), ins_position = Some 4\<rparr>"


section \<open>Conversation titles\<close>

lemma conversations_createEpesiMessage [simp]:
  "conversations (createEpesiMessage m s) = conversations s"
  by (simp add: createEpesiMessage_def)

lemma conversations_chat_in_conversation:
  "conversations (snd (chat_in_conversation gen ctx conv p s)) = conversations s"
  by (simp add: chat_in_conversation_def Let_def split: sum.splits backend_error.splits prod.splits)

text \<open>
  C7. A request that opens a conversation (no conversation id, or an empty one, on an
  existing dashboard, with an unused new id) adds exactly one conversation, and its title
  is the first 50 code units of the prompt followed by \<open>...\<close> when the prompt is longer
  than 50, and the prompt itself otherwise.
\<close>

theorem new_conversation_title:
  assumes "dashboardId req = Some d" and "getDashboard s d = Some dash"
    and "conversationId req = None \<or> conversationId req = Some []"
    and "newId \<notin> set (map conv_id (conversations s))"
  shows "conversations (snd (epesi_agent_chat gen ctx newId user s req))
         = conversations s @
           [\<lparr>conv_id = newId, conv_dashboard_id = dash_id dash,
             conv_title = (if length (prompt req) > 50 then take 50 (prompt req) @ js ''...''
                           else prompt req),
             created_by_id = user\<rparr>]"
  using assms
  by (auto simp: epesi_agent_chat_def chat_in_new_conversation_def Let_def
      conversations_chat_in_conversation conversation_title_def)

theorem new_conversation_title_witness:
  "map conv_title (conversations (snd (epesi_agent_chat example_backend example_context ''conv_1'' ''u1'' example_state title_request)))
     = [js ''Show me sales by region across all quarters for th...'']"
proof -
  have 1: "dashboardId title_request = Some 7" by (simp add: title_request_def)
  have 2: "getDashboard example_state 7 = Some example_dashboard"
    by (simp add: getDashboard_def example_state_def example_dashboard_def)
  have 3: "conversationId title_request = None \<or> conversationId title_request = Some []"
    by (simp add: title_request_def)
  have 4: "''conv_1'' \<notin> set (map conv_id (conversations example_state))"
    by (simp add: example_state_def)
  show ?thesis
    using new_conversation_title [OF 1 2 3 4, of example_backend example_context "''u1''"]
    by (simp add: title_request_def long_prompt_def example_state_def js_def)
qed

section \<open>Greetings\<close>

lemma unat_add_32:
  fixes a :: "16 word"
  assumes "a \<le> 0x5A"
  shows "unat (a + 0x20) = unat a + 32"
proof -
  have "unat a \<le> 90" using assms by (simp add: word_le_nat_alt)
  then have "(unat a + 32) mod 65536 = unat a + 32" by simp
  then show ?thesis by (simp add: unat_word_ariths)
qed

lemma upper_shifted:
  fixes a :: "16 word"
  assumes "0x41 \<le> a" "a \<le> 0x5A"
  shows "0x61 \<le> a + 0x20 \<and> a + 0x20 \<le> 0x7A \<and> \<not> 0x61 \<le> a"
  using assms unat_add_32[OF assms(2)] by (simp add: word_le_nat_alt)

lemma canonicalize_lower_upper:
  assumes "0x41 \<le> a" "a \<le> 0x5A"
  shows "canonicalize (a + 0x20) = canonicalize a"
  using upper_shifted[OF assms] by (simp add: canonicalize_def)

text \<open>Two code units with the same lower-case form have the same upper-case form.\<close>

lemma lower_canonicalize:
  assumes "lower a = lower b"
  shows "canonicalize a = canonicalize b"
proof (cases "0x41 \<le> a \<and> a \<le> 0x5A")
  case a_up: True
  show ?thesis
  proof (cases "0x41 \<le> b \<and> b \<le> 0x5A")
    case True
    with a_up assms have "a + 0x20 = b + 0x20" by (simp add: lower_def)
    then show ?thesis by simp
  next
    case False
    with a_up assms have "b = a + 0x20" by (auto simp: lower_def split: if_splits)
    then show ?thesis using a_up by (simp add: canonicalize_lower_upper)
  qed
next
  case a_low: False
  show ?thesis
  proof (cases "0x41 \<le> b \<and> b \<le> 0x5A")
    case True
    with a_low assms have "a = b + 0x20" by (auto simp: lower_def split: if_splits)
    then show ?thesis using True by (simp add: canonicalize_lower_upper)
  next
    case False
    with a_low assms show ?thesis by (auto simp: lower_def split: if_splits)
  qed
qed

lemma map_lower_canonicalize:
  "map lower s = map lower t \<Longrightarrow> map canonicalize s = map canonicalize t"
proof (induction s arbitrary: t)
  case Nil
  then show ?case by simp
next
  case (Cons a s)
  then obtain b t' where t: "t = b # t'" by (cases t) auto
  with Cons.prems have ab: "lower a = lower b" and rest: "map lower s = map lower t'" by simp_all
  show ?case using Cons.IH[OF rest] lower_canonicalize[OF ab] t by simp
qed

lemma greeting_accepted:
  assumes "g \<in> set greeting_phrases" and "equals_ignoring_case (trim p) g"
  shows "isGreeting p"
proof -
  have "map canonicalize (trim p) = map canonicalize (js g)"
    using assms(2) unfolding equals_ignoring_case_def by (rule map_lower_canonicalize)
  then show ?thesis
    using assms(1) by (simp add: isGreeting_def greeting_test_def image_iff) blast
qed

lemma trim_example: "trim (js ''  Good Morning '') = js ''Good Morning''"
  by (simp add: trim_def js_def is_js_space_def)

text \<open>
  C10. When the trimmed prompt equals one of the greeting phrases up to letter case, a
  request that reaches the greeting test (its dashboard exists, and its conversation is
  either found or newly opened under an unused id) is answered with the canned response
  and an empty chart list, the backend is not called, and the user's message and the
  canned assistant message are appended to the conversation's messages.
\<close>

theorem greeting_gets_canned_response:
  assumes g: "g \<in> set greeting_phrases" "equals_ignoring_case (trim (prompt req)) g"
    and d: "dashboardId req = Some d" "getDashboard s d = Some dash"
    and c: "((conversationId req = None \<or> conversationId req = Some [])
              \<and> newId \<notin> set (map conv_id (conversations s)) \<and> cid = newId)
            \<or> (conversationId req = Some cid \<and> cid \<noteq> []
                \<and> getEpesiConversation s cid = Some conv \<and> conv_id conv = cid)"
  shows "fst (epesi_agent_chat gen ctx newId user s req) = Reply canned_response [] cid
       \<and> backend_calls (snd (epesi_agent_chat gen ctx newId user s req)) = backend_calls s
       \<and> messages (snd (epesi_agent_chat gen ctx newId user s req))
           = messages s @
             [\<lparr>conversation_id = cid, role = ''user'', msg_content = prompt req, metadata_charts = None\<rparr>,
              \<lparr>conversation_id = cid, role = ''assistant'', msg_content = canned_response,
               metadata_charts = None\<rparr>]"
proof -
  have gr: "isGreeting (prompt req)" using g by (rule greeting_accepted)
  have body: "chat_in_conversation gen ctx cv (prompt req) s0
      = (Reply canned_response [] (conv_id cv),
         s0\<lparr>messages := messages s0 @
             [\<lparr>conversation_id = conv_id cv, role = ''user'', msg_content = prompt req, metadata_charts = None\<rparr>,
              \<lparr>conversation_id = conv_id cv, role = ''assistant'', msg_content = canned_response,
               metadata_charts = None\<rparr>]\<rparr>)" for cv s0
    using gr by (simp add: chat_in_conversation_def createEpesiMessage_def)
  from c show ?thesis
  proof
    assume "(conversationId req = None \<or> conversationId req = Some [])
              \<and> newId \<notin> set (map conv_id (conversations s)) \<and> cid = newId"
    then show ?thesis
      using d by (auto simp: epesi_agent_chat_def chat_in_new_conversation_def body)
  next
    assume "conversationId req = Some cid \<and> cid \<noteq> []
                \<and> getEpesiConversation s cid = Some conv \<and> conv_id conv = cid"
    then show ?thesis
      using d by (auto simp: epesi_agent_chat_def body)
  qed
qed

theorem greeting_gets_canned_response_witness:
  "fst (epesi_agent_chat example_backend example_context ''conv_1'' ''u1'' example_state greeting_request)
     = Reply canned_response [] ''conv_1''
   \<and> backend_calls (snd (epesi_agent_chat example_backend example_context ''conv_1'' ''u1'' example_state greeting_request)) = []
   \<and> map role (messages (snd (epesi_agent_chat example_backend example_context ''conv_1'' ''u1'' example_state greeting_request)))
       = [''user'', ''assistant'']"
proof -
  have 1: "''good morning'' \<in> set greeting_phrases" by (simp add: greeting_phrases_def)
  have 2: "equals_ignoring_case (trim (prompt greeting_request)) ''good morning''"
    unfolding greeting_request_def equals_ignoring_case_def
    by (simp add: trim_example) (simp add: js_def lower_def)
  have 3: "dashboardId greeting_request = Some 7" by (simp add: greeting_request_def)
  have 4: "getDashboard example_state 7 = Some example_dashboard"
    by (simp add: getDashboard_def example_state_def example_dashboard_def)
  have 5: "((conversationId greeting_request = None \<or> conversationId greeting_request = Some [])
              \<and> ''conv_1'' \<notin> set (map conv_id (conversations example_state)) \<and> ''conv_1'' = ''conv_1'')
            \<or> (conversationId greeting_request = Some ''conv_1'' \<and> ''conv_1'' \<noteq> []
                \<and> getEpesiConversation example_state ''conv_1'' = Some example_conversation
                \<and> conv_id example_conversation = ''conv_1'')"
    by (simp add: greeting_request_def example_state_def)
  show ?thesis
    using greeting_gets_canned_response [OF 1 2 3 4 5, of example_backend example_context "''u1''"]
    by (simp add: example_state_def)
qed

section \<open>Chat history as generation context\<close>

text \<open>
  C6. The claim asks for the most recent turns, at most 6, most recent first. The
  list the client holds is already ordered newest first, so \<open>slice(-6).reverse()\<close>
  takes its tail, the oldest turns, and puts the oldest first: with two turns the order is
  reversed, and with seven the newest turn is not sent at all.
\<close>

theorem history_context_order:
  "generation_context two_turns ''b1'' = [example_turn ''t1'' 1000, example_turn ''t2'' 2000]
   \<and> most_recent_first 6 two_turns ''b1'' = [example_turn ''t2'' 2000, example_turn ''t1'' 1000]
   \<and> map turn_id (generation_context seven_turns ''b1'') = [''t1'', ''t2'', ''t3'', ''t4'', ''t5'', ''t6'']
   \<and> map turn_id (most_recent_first 6 seven_turns ''b1'') = [''t7'', ''t6'', ''t5'', ''t4'', ''t3'', ''t2'']"
  by (simp add: generation_context_def most_recent_first_def recentHistory_def slice_last_def
      getBlockChatHistory_def two_turns_def seven_turns_def example_turn_def)

section \<open>Reconciling chart payloads\<close>

lemma js_map_points:
  "js_map (JArr ls) (\<lambda>l index. name_value l (js_or (js_index (JArr vs) index) (JNum 0)))
     = Inr (map (\<lambda>(l, i). name_value l (value_or_zero vs i)) (zip ls [0 ..< length ls]))"
  by (auto simp: value_or_zero_def js_or_def)

lemma js_index_first: "js_index (JArr (x # xs)) 0 = x"
  by simp

lemma js_or_truthy: "truthy a \<Longrightarrow> js_or a b = a"
  by (simp add: js_or_def)

lemma transform_labeled:
  "transformChartData (labeled_shape ls vs)
     = Inr (map (\<lambda>(l, i). name_value l (value_or_zero vs i)) (zip ls [0 ..< length ls]))"
  unfolding transformChartData_def labeled_shape_def Let_def
  by (simp add: js_map_points js_index_first del: js_map.simps js_index.simps)

lemma transform_category:
  "transformChartData (category_shape ls vs)
     = Inr (map (\<lambda>(l, i). name_value l (value_or_zero vs i)) (zip ls [0 ..< length ls]))"
  unfolding transformChartData_def category_shape_def Let_def
  by (simp add: js_map_points js_index_first js_or_truthy del: js_map.simps js_index.simps)

text \<open>
  C8, as the code has it: the output objects carry the keys \<open>name\<close> and \<open>value\<close>, not
  \<open>label\<close> and \<open>value\<close>.
\<close>

theorem reconciled_key_is_name:
  "transformChartData (labeled_shape labels_AB [JNum 1, JNum 2])
     \<noteq> Inr [JObj [(''label'', JStr (js ''A'')), (''value'', JNum 1)],
             JObj [(''label'', JStr (js ''B'')), (''value'', JNum 2)]]"
  by (simp add: transform_labeled labels_AB_def value_or_zero_def name_value_def)

text \<open>
  C8, amended. For every label list and value list, the labeled-series payload and the
  category/series payload carrying them reconcile to the same list: each label, in order,
  paired with its value under the keys \<open>name\<close> and \<open>value\<close>. Both example payloads give
  \<open>[{name: "A", value: 1}, {name: "B", value: 2}]\<close>.
\<close>

theorem shapes_reconcile_alike:
  "transformChartData (labeled_shape ls vs) = transformChartData (category_shape ls vs)
   \<and> transformChartData (labeled_shape ls vs)
       = Inr (map (\<lambda>(l, i). name_value l (value_or_zero vs i)) (zip ls [0 ..< length ls]))
   \<and> transformChartData (labeled_shape labels_AB [JNum 1, JNum 2])
       = Inr [name_value (JStr (js ''A'')) (JNum 1), name_value (JStr (js ''B'')) (JNum 2)]
   \<and> transformChartData (category_shape labels_AB [JNum 1, JNum 2])
       = Inr [name_value (JStr (js ''A'')) (JNum 1), name_value (JStr (js ''B'')) (JNum 2)]"
  by (simp add: transform_labeled transform_category labels_AB_def value_or_zero_def)

theorem shapes_reconcile_alike_witness:
  "transformChartData (labeled_shape [JStr (js ''Q1'')] [JNum 100])
     = transformChartData (category_shape [JStr (js ''Q1'')] [JNum 100])"
  using shapes_reconcile_alike [of "[JStr (js ''Q1'')]" "[JNum 100]"] by simp

text \<open>
  C9, as the code has it: \<open>|| 0\<close> replaces falsy values only, so the string
  \<open>"N/A"\<close> is passed through and is not turned into 0.
\<close>

theorem non_numeric_string_kept:
  "transformChartData (labeled_shape labels_AB [JNum 1, JStr (js ''N/A'')])
     = Inr [name_value (JStr (js ''A'')) (JNum 1), name_value (JStr (js ''B'')) (JStr (js ''N/A''))]
   \<and> transformChartData (labeled_shape labels_AB [JNum 1, JStr (js ''N/A'')])
     \<noteq> Inr [name_value (JStr (js ''A'')) (JNum 1), name_value (JStr (js ''B'')) (JNum 0)]"
  by (simp add: transform_labeled labels_AB_def value_or_zero_def name_value_def js_def)

lemma names_of_zip:
  "length ls = length ns \<Longrightarrow>
   map (\<lambda>p. get_prop p ''name'') (map (\<lambda>(l, i). name_value l (f i)) (zip ls ns)) = ls"
  by (induction ls ns rule: list_induct2) (simp_all add: name_value_def)

lemma values_of_zip:
  "length ls = length ns \<Longrightarrow>
   map (\<lambda>p. get_prop p ''value'') (map (\<lambda>(l, i). name_value l (f i)) (zip ls ns)) = map f ns"
  by (induction ls ns rule: list_induct2) (simp_all add: name_value_def)

lemma names_of_points:
  "map (\<lambda>p. get_prop p ''name'') (map (\<lambda>(l, i). name_value l (f i)) (zip ls [0 ..< length ls])) = ls"
  by (rule names_of_zip) simp

lemma values_of_points:
  "map (\<lambda>p. get_prop p ''value'') (map (\<lambda>(l, i). name_value l (f i)) (zip ls [0 ..< length ls]))
     = map f [0 ..< length ls]"
  by (rule values_of_zip) simp

lemma value_or_zero_truthy: "value_or_zero vs i = JNum 0 \<or> truthy (value_or_zero vs i)"
  by (simp add: value_or_zero_def)

lemma toolbar_labeled:
  "toolbar_transformChartData to_number (labeled_shape ls vs)
     = Inr (map (\<lambda>(l, i). name_value l (value_or_zero vs i)) (zip ls [0 ..< length ls]))"
  unfolding toolbar_transformChartData_def labeled_shape_def Let_def
  by (simp add: js_map_points js_index_first length_positive_def nullish_def
      del: js_map.simps js_index.simps)

lemma toolbar_flat:
  "toolbar_transformChartData to_number (JArr (JNum r # vs))
     = Inr (map (\<lambda>(v, i). name_value (item_label i) v) (zip (JNum r # vs) [0 ..< Suc (length vs)]))"
  unfolding toolbar_transformChartData_def
  by (simp add: typeof_object_def typeof_number_def)

text \<open>
  The toolbar's function does not know the category/series shape: it answers with the
  empty list.
\<close>

lemma toolbar_category:
  "toolbar_transformChartData to_number (category_shape ls vs) = Inr []"
  unfolding toolbar_transformChartData_def category_shape_def
  by simp

lemma values_of_items:
  "length xs = length ns \<Longrightarrow>
   map (\<lambda>p. get_prop p ''value'') (map (\<lambda>(v, i). name_value (f i) v) (zip xs ns)) = xs"
  by (induction xs ns rule: list_induct2) (simp_all add: name_value_def)

text \<open>
  The toolbar's function hands back an array whose first element carries a \<open>name\<close>:
  nothing in it is read or changed.
\<close>

lemma toolbar_canonical:
  "toolbar_transformChartData to_number (JArr (JObj ((''name'', n) # kvs) # xs))
     = Inr (JObj ((''name'', n) # kvs) # xs)"
  unfolding toolbar_transformChartData_def
  by (simp add: typeof_object_def name_in_def)

text \<open>
  C9, amended. The function of smart-insights-modal.tsx keeps every entry of a payload in
  the labeled-series or in the category/series shape, and the function of
  draggable-toolbar.tsx does the same for the labeled-series shape: the output has the
  length and the label order of the label list, and the value at an index is the input
  value when that is truthy and 0 otherwise. So \<open>null\<close>, a missing value, \<open>NaN\<close>,
  \<open>false\<close> and the empty string become 0, and the output holds no \<open>NaN\<close>, \<open>null\<close> or
  \<open>undefined\<close>; a truthy non-numeric value such as the string \<open>"N/A"\<close> is kept as it is.
  The toolbar's function keeps the values of a flat array that starts with a number as
  they are, returns unchanged an array whose first element is an object with a \<open>name\<close>,
  and does not know the category/series shape: for it the answer is the empty list, and
  every entry is dropped.
\<close>

theorem falsy_values_become_zero:
  "(\<exists>out. transformChartData (labeled_shape ls vs) = Inr out
     \<and> transformChartData (category_shape ls vs) = Inr out
     \<and> toolbar_transformChartData to_number (labeled_shape ls vs) = Inr out
     \<and> length out = length ls
     \<and> map (\<lambda>p. get_prop p ''name'') out = ls
     \<and> map (\<lambda>p. get_prop p ''value'') out
         = map (\<lambda>i. if i < length vs \<and> truthy (vs ! i) then vs ! i else JNum 0) [0 ..< length ls]
     \<and> JNaN \<notin> set (map (\<lambda>p. get_prop p ''value'') out)
     \<and> JNull \<notin> set (map (\<lambda>p. get_prop p ''value'') out)
     \<and> JUndefined \<notin> set (map (\<lambda>p. get_prop p ''value'') out))
   \<and> (\<exists>flat. toolbar_transformChartData to_number (JArr (JNum r # ws)) = Inr flat
     \<and> map (\<lambda>p. get_prop p ''value'') flat = JNum r # ws)
   \<and> toolbar_transformChartData to_number (JArr (JObj ((''name'', n) # kvs) # xs))
       = Inr (JObj ((''name'', n) # kvs) # xs)
   \<and> toolbar_transformChartData to_number (category_shape ls vs) = Inr []"
proof (intro conjI)
  let ?out = "map (\<lambda>(l, i). name_value l (value_or_zero vs i)) (zip ls [0 ..< length ls])"
  have v: "map (\<lambda>p. get_prop p ''value'') ?out = map (value_or_zero vs) [0 ..< length ls]"
    by (rule values_of_points)
  have t: "x \<in> set (map (value_or_zero vs) [0 ..< length ls]) \<Longrightarrow> x = JNum 0 \<or> truthy x" for x
    using value_or_zero_truthy by auto
  have "JNaN \<notin> set (map (value_or_zero vs) [0 ..< length ls])"
    "JNull \<notin> set (map (value_or_zero vs) [0 ..< length ls])"
    "JUndefined \<notin> set (map (value_or_zero vs) [0 ..< length ls])"
    using t[of JNaN] t[of JNull] t[of JUndefined] by auto
  moreover have "map (value_or_zero vs) [0 ..< length ls]
      = map (\<lambda>i. if i < length vs \<and> truthy (vs ! i) then vs ! i else JNum 0) [0 ..< length ls]"
    by (simp add: value_or_zero_def)
  ultimately show "\<exists>out. transformChartData (labeled_shape ls vs) = Inr out
     \<and> transformChartData (category_shape ls vs) = Inr out
     \<and> toolbar_transformChartData to_number (labeled_shape ls vs) = Inr out
     \<and> length out = length ls
     \<and> map (\<lambda>p. get_prop p ''name'') out = ls
     \<and> map (\<lambda>p. get_prop p ''value'') out
         = map (\<lambda>i. if i < length vs \<and> truthy (vs ! i) then vs ! i else JNum 0) [0 ..< length ls]
     \<and> JNaN \<notin> set (map (\<lambda>p. get_prop p ''value'') out)
     \<and> JNull \<notin> set (map (\<lambda>p. get_prop p ''value'') out)
     \<and> JUndefined \<notin> set (map (\<lambda>p. get_prop p ''value'') out)"
    using transform_labeled[of ls vs] transform_category[of ls vs] toolbar_labeled[of to_number ls vs]
      names_of_points[of "value_or_zero vs" ls] v
    by (intro exI[of _ ?out]) simp
next
  let ?flat = "map (\<lambda>(v, i). name_value (item_label i) v) (zip (JNum r # ws) [0 ..< Suc (length ws)])"
  have "map (\<lambda>p. get_prop p ''value'') ?flat = JNum r # ws"
    by (rule values_of_items) simp
  then show "\<exists>flat. toolbar_transformChartData to_number (JArr (JNum r # ws)) = Inr flat
     \<and> map (\<lambda>p. get_prop p ''value'') flat = JNum r # ws"
    using toolbar_flat[of to_number r ws] by (intro exI[of _ ?flat]) simp
next
  show "toolbar_transformChartData to_number (JArr (JObj ((''name'', n) # kvs) # xs))
       = Inr (JObj ((''name'', n) # kvs) # xs)"
    by (rule toolbar_canonical)
next
  show "toolbar_transformChartData to_number (category_shape ls vs) = Inr []"
    by (rule toolbar_category)
qed

theorem falsy_values_become_zero_witness:
  "transformChartData (labeled_shape labels_AB [JNull, JNum 2])
     = Inr [name_value (JStr (js ''A'')) (JNum 0), name_value (JStr (js ''B'')) (JNum 2)]
   \<and> toolbar_transformChartData (\<lambda>v. JNaN) (labeled_shape labels_AB [JNull, JNum 2])
     = Inr [name_value (JStr (js ''A'')) (JNum 0), name_value (JStr (js ''B'')) (JNum 2)]
   \<and> toolbar_transformChartData (\<lambda>v. JNaN) (category_shape labels_AB [JNull, JNum 2]) = Inr []"
  using falsy_values_become_zero [of labels_AB "[JNull, JNum 2]" "\<lambda>v. JNaN" 1 "[]" JNull "[]" "[]"]
  by (simp add: transform_labeled toolbar_labeled labels_AB_def value_or_zero_def)

section \<open>Positions under updates\<close>






lemma positions_of_append:
  "positions_of (tbl @ [b]) d
   = (if dashboard_id b = d then positions_of tbl d @ [position b] else positions_of tbl d)"
  by (simp add: positions_of_def sql_select_def)

lemma ids_sql_update_position:
  "map block_id (sql_update c (\<lambda>b. b\<lparr>position := h b\<rparr>) tbl) = map block_id tbl"
  by (induction tbl) (simp_all add: sql_update_def)



lemma same_id_same_block:
  assumes "distinct (map block_id tbl)" "a \<in> set tbl" "b \<in> set tbl" "block_id a = block_id b"
  shows "a = b"
  using assms by (simp add: distinct_map inj_on_def)

lemma get_block_Some:
  assumes "get_block tbl i = Some b"
  shows "b \<in> set tbl \<and> block_id b = i"
proof -
  from assms obtain rest where "filter (\<lambda>x. block_id x = i) tbl = b # rest"
    by (auto simp: get_block_def sql_select_def split: list.splits)
  then have "b \<in> set (filter (\<lambda>x. block_id x = i) tbl)" by simp
  then show ?thesis by simp
qed

lemma get_block_None:
  assumes "get_block tbl i = None"
  shows "i \<notin> set (map block_id tbl)"
proof -
  have "filter (\<lambda>x. block_id x = i) tbl = []"
    using assms by (simp add: get_block_def sql_select_def split: list.splits)
  then have "\<forall>x \<in> set tbl. block_id x \<noteq> i" by (simp add: filter_empty_conv)
  then show ?thesis by auto
qed


section \<open>What the storage layer accepts\<close>

lemma fits_short: "length s \<le> n \<Longrightarrow> fits n s"
  by (simp add: fits_def)

lemma as_stored_short:
  assumes "length (title b) \<le> 255" "length (block_type b) \<le> 50"
    and "int32 (block_size b)" "int32 (position b)"
  shows "as_stored b = Some b"
  using assms by (simp add: as_stored_def fits_short)

lemma as_stored_keeps:
  assumes "as_stored b = Some r"
  shows "block_id r = block_id b" "dashboard_id r = dashboard_id b" "position r = position b"
    "creator_id r = creator_id b"
  using assms by (auto simp: as_stored_def split: if_splits)

lemma createBlock_accepted:
  assumes "as_stored b = Some r" and "dashboard_id b \<in> set (dashboards s)"
    and "creator_id b \<in> set (users s)" and "block_id b \<notin> set (map block_id (blocks s))"
  shows "createBlock s b = Some (r, s\<lparr>blocks := blocks s @ [r]\<rparr>)"
  using assms as_stored_keeps[OF assms(1)]
  by (simp add: createBlock_def sql_insert_def)


lemma set_columns_only_position:
  "set_columns (only_position p) b = b\<lparr>position := p\<rparr>"
  by (simp add: set_columns_def only_position_def no_updates_def)

lemma values_fit_only_position: "values_fit (only_position p) = int32 p"
  by (simp add: values_fit_def only_position_def no_updates_def)

lemma updateBlock_only_position:
  "updateBlock s i (only_position p)
     = (if int32 p then
          Some (map_option (\<lambda>b. b\<lparr>position := p\<rparr>) (get_block (blocks s) i),
                s\<lparr>blocks := sql_update (\<lambda>x. block_id x = i) (\<lambda>b. b\<lparr>position := p\<rparr>) (blocks s)\<rparr>)
        else None)"
proof (cases "get_block (blocks s) i")
  case None
  then have "i \<notin> set (map block_id (blocks s))" by (rule get_block_None)
  then have "sql_update (\<lambda>x. block_id x = i) (\<lambda>b. b\<lparr>position := p\<rparr>) (blocks s) = blocks s"
    unfolding sql_update_def by (intro map_idI) auto
  then show ?thesis
    using None by (simp add: updateBlock_def values_fit_only_position)
next
  case (Some b)
  have sc: "set_columns (only_position p) = (\<lambda>b. b\<lparr>position := p\<rparr>)"
    by (rule ext) (rule set_columns_only_position)
  show ?thesis
    using Some
    by (simp add: updateBlock_def values_fit_only_position sc references_hold_def)
qed

section \<open>Creating a block at an explicit position\<close>

lemma position_router_row [simp]: "position (router_row d body p i u) = p"
  and dashboard_router_row [simp]: "dashboard_id (router_row d body p i u) = d"
  and id_router_row [simp]: "block_id (router_row d body p i u) = i"
  by (simp_all add: router_row_def)

lemma position_api_row [simp]: "position (api_row d body p i u) = p"
  and dashboard_api_row [simp]: "dashboard_id (api_row d body p i u) = d"
  and id_api_row [simp]: "block_id (api_row d body p i u) = i"
  and creator_api_row [simp]: "creator_id (api_row d body p i u) = u"
  by (simp_all add: api_row_def)

lemma ids_set_sql_update_position:
  "block_id ` set (sql_update c (\<lambda>b. b\<lparr>position := h b\<rparr>) tbl) = block_id ` set tbl"
  using arg_cong[OF ids_sql_update_position, of set c h tbl] by simp

text \<open>
  The dashboards router does what C3 says: on an existing dashboard and under an unused
  id, every block of the dashboard at position \<open>p\<close> or above moves up by one, and the new
  row is stored at \<open>p\<close>.
\<close>

lemma router_insert_shifts:
  assumes "d \<in> set (dashboards s)" and "i \<notin> set (map block_id (blocks s))"
  shows "router_create_block s d body (PVal p) i u
         = ((S201, Some (router_row d body p i u)),
            s\<lparr>blocks := sql_update (\<lambda>b. dashboard_id b = d \<and> p \<le> position b)
                                   (\<lambda>b. b\<lparr>position := position b + 1\<rparr>) (blocks s)
                         @ [router_row d body p i u]\<rparr>)"
  using assms
  by (simp add: router_create_block_def sql_insert_def ids_set_sql_update_position Let_def)

lemma three_blocks_positions: "positions_of three_blocks 1 = [0, 1, 2]"
  by (simp add: positions_of_def sql_select_def three_blocks_def example_block_def)

lemma three_blocks_dense: "dense three_blocks 1"
  by (auto simp add: dense_def is_dense_def three_blocks_positions)

text \<open>
  The handler of routes.ts, for a request that carries a position and that the database
  accepts: the row is appended to the table, and no row is touched.
\<close>

lemma api_create_at:
  assumes "as_stored (api_row d body p i u) = Some r" and "d \<in> set (dashboards s)"
    and "u \<in> set (users s)" and "i \<notin> set (map block_id (blocks s))"
  shows "api_create_block s d body (PVal p) i u = ((S200, Some r), s\<lparr>blocks := blocks s @ [r]\<rparr>)"
  using createBlock_accepted[OF assms(1), of s] assms(2,3,4)
  by (simp add: api_create_block_def)

lemma agent_row_stored:
  "as_stored (api_row 1 agent_body 0 ''new'' ''u1'') = Some (api_row 1 agent_body 0 ''new'' ''u1'')"
  by (rule as_stored_short) (simp_all add: api_row_def agent_body_def str_or_def int_or_def int32_def)

text \<open>
  C3. The handler of routes.ts shifts nothing when the request carries a position. The
  agent's modal sends \<open>position: 0\<close>: on a dashboard with positions 0, 1, 2 the new
  block is stored at 0 and the old ones stay, so two blocks share position 0. The router's
  handler, on the same request, moves them to 1, 2, 3.
\<close>

theorem explicit_position_not_shifted:
  "dense three_blocks 1
   \<and> api_create_block three_blocks_db 1 agent_body (PVal 0) ''new'' ''u1''
       = ((S200, Some (api_row 1 agent_body 0 ''new'' ''u1'')),
          three_blocks_db\<lparr>blocks := three_blocks @ [api_row 1 agent_body 0 ''new'' ''u1'']\<rparr>)
   \<and> positions_of (blocks (snd (api_create_block three_blocks_db 1 agent_body (PVal 0) ''new'' ''u1''))) 1
       = [0, 1, 2, 0]
   \<and> positions_of (blocks (snd (router_create_block three_blocks_db 1 agent_body (PVal 0) ''new'' ''u1''))) 1
       = [1, 2, 3, 0]"
proof -
  have a: "api_create_block three_blocks_db 1 agent_body (PVal 0) ''new'' ''u1''
       = ((S200, Some (api_row 1 agent_body 0 ''new'' ''u1'')),
          three_blocks_db\<lparr>blocks := blocks three_blocks_db @ [api_row 1 agent_body 0 ''new'' ''u1'']\<rparr>)"
    by (rule api_create_at[OF agent_row_stored])
       (simp_all add: three_blocks_db_def three_blocks_def example_block_def)
  have r: "positions_of (blocks (snd (router_create_block three_blocks_db 1 agent_body (PVal 0) ''new'' ''u1''))) 1
       = [1, 2, 3, 0]"
    by (simp add: router_insert_shifts three_blocks_db_def three_blocks_def example_block_def
        positions_of_append)
       (simp add: positions_of_def sql_select_def sql_update_def)
  have b: "blocks three_blocks_db = three_blocks" by (simp add: three_blocks_db_def)
  show ?thesis
    using three_blocks_dense r by (simp add: a b positions_of_append three_blocks_positions)
qed

section \<open>Creating a block without a position\<close>

text \<open>The loop of shifts, when no call throws: every listed row has moved up by one.\<close>

lemma shift_existing_map:
  assumes "distinct (map block_id es)"
    and "\<And>e b. e \<in> set es \<Longrightarrow> b \<in> set (blocks s) \<Longrightarrow> block_id b = block_id e \<Longrightarrow> position b = position e"
    and "\<And>e. e \<in> set es \<Longrightarrow> int32 (position e + 1)"
  shows "shift_existing es s
         = (True, s\<lparr>blocks := map (\<lambda>b. if block_id b \<in> block_id ` set es
                                          then b\<lparr>position := position b + 1\<rparr> else b) (blocks s)\<rparr>)"
  using assms
proof (induction es arbitrary: s)
  case Nil
  then show ?case by simp
next
  case (Cons e es)
  let ?tbl1 = "sql_update (\<lambda>x. block_id x = block_id e) (\<lambda>b. b\<lparr>position := position e + 1\<rparr>) (blocks s)"
  let ?s1 = "s\<lparr>blocks := ?tbl1\<rparr>"
  have fit: "int32 (position e + 1)" using Cons.prems(3)[of e] by simp
  have step: "shift_existing (e # es) s = shift_existing es ?s1"
    using fit by (simp add: updateBlock_only_position)
  have tbl1: "?tbl1 = map (\<lambda>b. if block_id b = block_id e then b\<lparr>position := position b + 1\<rparr> else b) (blocks s)"
    unfolding sql_update_def
  proof (rule map_cong[OF refl])
    fix x assume x: "x \<in> set (blocks s)"
    show "(if block_id x = block_id e then x\<lparr>position := position e + 1\<rparr> else x)
        = (if block_id x = block_id e then x\<lparr>position := position x + 1\<rparr> else x)"
    proof (cases "block_id x = block_id e")
      case True
      then have "position x = position e" using Cons.prems(2)[of e x] x by simp
      then show ?thesis by simp
    next
      case False
      then show ?thesis by simp
    qed
  qed
  have fresh: "block_id e \<notin> block_id ` set es" and dist: "distinct (map block_id es)"
    using Cons.prems(1) by simp_all
  have keep: "position b = position e'"
    if "e' \<in> set es" "b \<in> set (blocks ?s1)" "block_id b = block_id e'" for e' b
  proof -
    from that(2) have "b \<in> set ?tbl1" by simp
    then obtain b0 where b0: "b0 \<in> set (blocks s)"
      and b: "b = (if block_id b0 = block_id e then b0\<lparr>position := position b0 + 1\<rparr> else b0)"
      unfolding tbl1 by auto
    have ne: "block_id e' \<noteq> block_id e"
    proof
      assume "block_id e' = block_id e"
      then have "block_id e \<in> block_id ` set es" using that(1) by (metis imageI)
      then show False using fresh by simp
    qed
    have "block_id b = block_id b0" using b by simp
    then have "block_id b0 \<noteq> block_id e" using that(3) ne by simp
    then have "b = b0" using b by simp
    then show ?thesis using Cons.prems(2)[of e' b0] that(1,3) b0 by simp
  qed
  have fits: "int32 (position e' + 1)" if "e' \<in> set es" for e'
    using Cons.prems(3)[of e'] that by simp
  have "shift_existing es ?s1
      = (True, ?s1\<lparr>blocks := map (\<lambda>b. if block_id b \<in> block_id ` set es
                                         then b\<lparr>position := position b + 1\<rparr> else b) (blocks ?s1)\<rparr>)"
    by (rule Cons.IH[OF dist keep fits])
  moreover have "map (\<lambda>b. if block_id b \<in> block_id ` set es then b\<lparr>position := position b + 1\<rparr> else b) ?tbl1
      = map (\<lambda>b. if block_id b \<in> block_id ` set (e # es) then b\<lparr>position := position b + 1\<rparr> else b) (blocks s)"
    unfolding tbl1 map_map
    by (rule map_cong[OF refl]) (use fresh in auto)
  ultimately show ?case unfolding step by simp
qed

lemma shift_existing_dashboard:
  assumes ids: "distinct (map block_id (blocks s))"
    and fit: "\<And>p. p \<in> set (positions_of (blocks s) d) \<Longrightarrow> int32 (p + 1)"
  shows "shift_existing (getBlocksByDashboard (blocks s) d) s
         = (True, s\<lparr>blocks := sql_update (\<lambda>b. dashboard_id b = d)
                                         (\<lambda>b. b\<lparr>position := position b + 1\<rparr>) (blocks s)\<rparr>)"
proof -
  let ?tbl = "blocks s"
  let ?es = "getBlocksByDashboard ?tbl d"
  have set_es: "set ?es = {b \<in> set ?tbl. dashboard_id b = d}"
    by (auto simp: getBlocksByDashboard_def sql_select_def)
  have "distinct ?tbl" using ids by (simp add: distinct_map)
  then have "distinct ?es" by (simp add: getBlocksByDashboard_def sql_select_def)
  moreover have "inj_on block_id (set ?es)"
    using ids set_es by (auto simp: distinct_map inj_on_def)
  ultimately have d_es: "distinct (map block_id ?es)" by (simp add: distinct_map)
  have same: "position b = position e" if "e \<in> set ?es" "b \<in> set ?tbl" "block_id b = block_id e" for e b
  proof -
    have "e \<in> set ?tbl" using that(1) set_es by simp
    then have "b = e" using same_id_same_block[OF ids that(2) _ that(3)] by simp
    then show ?thesis by simp
  qed
  have fits: "int32 (position e + 1)" if "e \<in> set ?es" for e
  proof -
    have "position e \<in> set (positions_of ?tbl d)"
      using that set_es by (auto simp: positions_of_def sql_select_def)
    then show ?thesis by (rule fit)
  qed
  have member: "(block_id b \<in> block_id ` set ?es) = (dashboard_id b = d)" if "b \<in> set ?tbl" for b
  proof
    assume "block_id b \<in> block_id ` set ?es"
    then obtain e where e: "e \<in> set ?es" "block_id b = block_id e" by auto
    then have "e \<in> set ?tbl" "dashboard_id e = d" using set_es by simp_all
    moreover have "b = e" using same_id_same_block[OF ids that \<open>e \<in> set ?tbl\<close> e(2)] .
    ultimately show "dashboard_id b = d" by simp
  next
    assume "dashboard_id b = d"
    then have "b \<in> set ?es" using that set_es by simp
    then show "block_id b \<in> block_id ` set ?es" by (rule imageI)
  qed
  have "shift_existing ?es s
      = (True, s\<lparr>blocks := map (\<lambda>b. if block_id b \<in> block_id ` set ?es
                                      then b\<lparr>position := position b + 1\<rparr> else b) ?tbl\<rparr>)"
    by (rule shift_existing_map[OF d_es same fits])
  moreover have "map (\<lambda>b. if block_id b \<in> block_id ` set ?es then b\<lparr>position := position b + 1\<rparr> else b) ?tbl
      = sql_update (\<lambda>b. dashboard_id b = d) (\<lambda>b. b\<lparr>position := position b + 1\<rparr>) ?tbl"
    unfolding sql_update_def by (rule map_cong[OF refl]) (simp add: member)
  ultimately show ?thesis by simp
qed

text \<open>
  Whether the loop comes to its end or not, it rewrites rows in place: ids and dashboards
  stay, and a row that is not listed is not touched.
\<close>

lemma shift_existing_rows:
  "\<exists>W. snd (shift_existing es s) = s\<lparr>blocks := map W (blocks s)\<rparr>
       \<and> (\<forall>x. block_id (W x) = block_id x \<and> dashboard_id (W x) = dashboard_id x
              \<and> (block_id x \<notin> block_id ` set es \<longrightarrow> W x = x))"
proof (induction es arbitrary: s)
  case Nil
  have "snd (shift_existing [] s) = s\<lparr>blocks := map (\<lambda>x. x) (blocks s)\<rparr>" by simp
  then show ?case by blast
next
  case (Cons e es)
  show ?case
  proof (cases "int32 (position e + 1)")
    case False
    then have "snd (shift_existing (e # es) s) = s\<lparr>blocks := map (\<lambda>x. x) (blocks s)\<rparr>"
      by (simp add: updateBlock_only_position)
    then show ?thesis by blast
  next
    case True
    let ?U = "\<lambda>x. if block_id x = block_id e then x\<lparr>position := position e + 1\<rparr> else x"
    let ?s1 = "s\<lparr>blocks := map ?U (blocks s)\<rparr>"
    have step: "shift_existing (e # es) s = shift_existing es ?s1"
      using True by (simp add: updateBlock_only_position sql_update_def)
    from Cons.IH[of ?s1] obtain W where
      W: "snd (shift_existing es ?s1) = ?s1\<lparr>blocks := map W (blocks ?s1)\<rparr>"
      and keep: "\<And>x. block_id (W x) = block_id x \<and> dashboard_id (W x) = dashboard_id x
                    \<and> (block_id x \<notin> block_id ` set es \<longrightarrow> W x = x)"
      by blast
    have "snd (shift_existing (e # es) s) = s\<lparr>blocks := map (\<lambda>x. W (?U x)) (blocks s)\<rparr>"
      unfolding step W by (simp add: comp_def)
    moreover have "block_id (W (?U x)) = block_id x \<and> dashboard_id (W (?U x)) = dashboard_id x
          \<and> (block_id x \<notin> block_id ` set (e # es) \<longrightarrow> W (?U x) = x)" for x
      using keep[of "?U x"] by (cases "block_id x = block_id e") simp_all
    ultimately show ?thesis by blast
  qed
qed

lemma api_prepend:
  assumes ids: "distinct (map block_id (blocks s))" and fresh: "i \<notin> set (map block_id (blocks s))"
    and d: "d \<in> set (dashboards s)" and u: "u \<in> set (users s)"
    and r: "as_stored (api_row d body 0 i u) = Some r"
    and fit: "\<And>p. p \<in> set (positions_of (blocks s) d) \<Longrightarrow> int32 (p + 1)"
  shows "api_create_block s d body PUndefined i u
         = ((S200, Some r),
            s\<lparr>blocks := sql_update (\<lambda>b. dashboard_id b = d) (\<lambda>b. b\<lparr>position := position b + 1\<rparr>) (blocks s)
                         @ [r]\<rparr>)"
proof -
  let ?s1 = "s\<lparr>blocks := sql_update (\<lambda>b. dashboard_id b = d) (\<lambda>b. b\<lparr>position := position b + 1\<rparr>) (blocks s)\<rparr>"
  have "createBlock ?s1 (api_row d body 0 i u) = Some (r, ?s1\<lparr>blocks := blocks ?s1 @ [r]\<rparr>)"
    using fresh d u by (intro createBlock_accepted[OF r]) (simp_all add: ids_set_sql_update_position)
  then show ?thesis
    by (simp add: api_create_block_def shift_existing_dashboard[OF ids fit])
qed

text \<open>
  When the dashboard does not exist the INSERT is refused, and the handler answers 500;
  so it does for a user the table \<open>users\<close> does not hold.
\<close>

lemma api_create_unknown_dashboard:
  assumes "d \<notin> set (dashboards s)"
  shows "fst (api_create_block s d body pos i u) = (S500, None)"
proof -
  obtain W where W: "snd (shift_existing (getBlocksByDashboard (blocks s) d) s) = s\<lparr>blocks := map W (blocks s)\<rparr>"
    using shift_existing_rows by blast
  have no: "createBlock s1 (api_row d body p i u) = None" if "dashboards s1 = dashboards s" for s1 p
    using assms that as_stored_keeps(2)[of "api_row d body p i u"]
    by (auto simp: createBlock_def split: option.splits)
  show ?thesis
  proof (cases pos)
    case PUndefined
    obtain ok s1 where sh: "shift_existing (getBlocksByDashboard (blocks s) d) s = (ok, s1)"
      by (cases "shift_existing (getBlocksByDashboard (blocks s) d) s")
    then have "dashboards s1 = dashboards s" using W by simp
    then show ?thesis using PUndefined sh no[of s1 0] by (simp add: api_create_block_def)
  next
    case PNull
    then show ?thesis by (simp add: api_create_block_def)
  next
    case (PVal p)
    then show ?thesis using no[of s p] by (simp add: api_create_block_def)
  qed
qed

text \<open>
  When the columns refuse the new row (a title of more than 255 characters, say), the
  INSERT throws after the loop has run: every block of the dashboard has moved up by one,
  no block is at position 0, and the handler answers 500.
\<close>

lemma api_create_refused_row:
  assumes ids: "distinct (map block_id (blocks s))"
    and fit: "\<And>p. p \<in> set (positions_of (blocks s) d) \<Longrightarrow> int32 (p + 1)"
    and r: "as_stored (api_row d body 0 i u) = None"
  shows "api_create_block s d body PUndefined i u
         = ((S500, None),
            s\<lparr>blocks := sql_update (\<lambda>b. dashboard_id b = d) (\<lambda>b. b\<lparr>position := position b + 1\<rparr>) (blocks s)\<rparr>)"
  using r by (simp add: api_create_block_def shift_existing_dashboard[OF ids fit] createBlock_def)

text \<open>
  A position that cannot be incremented within the column stops the loop: the blocks
  before it in the order of positions have moved, the others have not, and no row is
  added.
\<close>

lemma api_create_overflow:
  "api_create_block overflow_db 1 chart_body PUndefined ''new'' ''u1''
     = ((S500, None),
        overflow_db\<lparr>blocks := [example_block ''a'' 1 6, example_block ''b'' 1 2147483647]\<rparr>)"
  by (simp add: api_create_block_def overflow_db_def getBlocksByDashboard_def sql_select_def
      example_block_def updateBlock_only_position int32_def sql_update_def)

text \<open>
  C4, as the code has it: the handler of routes.ts puts a block created without a
  position at position 0 and moves every block of the dashboard up by one, whatever the
  block's type. Here a block of type \<open>chart\<close> is created on a dashboard with positions
  0, 1, 2: it is not appended at 3, and every existing block changes position.
\<close>

theorem omitted_position_prepends:
  "api_create_block three_blocks_db 1 chart_body PUndefined ''new'' ''u1''
     = ((S200, Some (api_row 1 chart_body 0 ''new'' ''u1'')),
        three_blocks_db\<lparr>blocks :=
          [example_block ''a'' 1 1, example_block ''b'' 1 2, example_block ''c'' 1 3,
           api_row 1 chart_body 0 ''new'' ''u1'']\<rparr>)
   \<and> block_type (api_row 1 chart_body 0 ''new'' ''u1'') = ''chart''
   \<and> position (api_row 1 chart_body 0 ''new'' ''u1'') = 0
   \<and> positions_of (blocks three_blocks_db) 1 = [0, 1, 2]"
proof -
  have b: "blocks three_blocks_db = three_blocks" by (simp add: three_blocks_db_def)
  have ids: "distinct (map block_id (blocks three_blocks_db))"
    and fresh: "''new'' \<notin> set (map block_id (blocks three_blocks_db))"
    and d: "1 \<in> set (dashboards three_blocks_db)" and u: "''u1'' \<in> set (users three_blocks_db)"
    by (simp_all add: three_blocks_db_def three_blocks_def example_block_def)
  have r: "as_stored (api_row 1 chart_body 0 ''new'' ''u1'') = Some (api_row 1 chart_body 0 ''new'' ''u1'')"
    by (rule as_stored_short) (simp_all add: api_row_def chart_body_def str_or_def int_or_def int32_def)
  have fit: "int32 (p + 1)" if "p \<in> set (positions_of (blocks three_blocks_db) 1)" for p
    using that by (auto simp: b three_blocks_positions int32_def)
  have "api_create_block three_blocks_db 1 chart_body PUndefined ''new'' ''u1''
     = ((S200, Some (api_row 1 chart_body 0 ''new'' ''u1'')),
        three_blocks_db\<lparr>blocks :=
          sql_update (\<lambda>b. dashboard_id b = 1) (\<lambda>b. b\<lparr>position := position b + 1\<rparr>) (blocks three_blocks_db)
          @ [api_row 1 chart_body 0 ''new'' ''u1'']\<rparr>)"
    using ids fresh d u r fit by (rule api_prepend)
  moreover have "sql_update (\<lambda>b. dashboard_id b = 1) (\<lambda>b. b\<lparr>position := position b + 1\<rparr>) (blocks three_blocks_db)
     = [example_block ''a'' 1 1, example_block ''b'' 1 2, example_block ''c'' 1 3]"
    by (simp add: b sql_update_def three_blocks_def example_block_def)
  moreover have "block_type (api_row 1 chart_body 0 ''new'' ''u1'') = ''chart''"
    by (simp add: api_row_def chart_body_def str_or_def)
  ultimately show ?thesis by (simp add: b three_blocks_positions)
qed

lemma router_append:
  assumes "pos = PUndefined \<or> pos = PNull" and "d \<in> set (dashboards s)"
    and "i \<notin> set (map block_id (blocks s))"
  shows "router_create_block s d body pos i u
         = ((S201, Some (router_row d body (int_or (max_position (blocks s) d) (- 1) + 1) i u)),
            s\<lparr>blocks := blocks s @ [router_row d body (int_or (max_position (blocks s) d) (- 1) + 1) i u]\<rparr>)"
  using assms by (auto simp: router_create_block_def sql_insert_def Let_def)

lemma int_or_max:
  "m \<noteq> Some 0 \<Longrightarrow> int_or m (- 1) + 1 = (case m of None \<Rightarrow> 0 | Some k \<Rightarrow> k + 1)"
  by (simp add: int_or_def split: option.splits)

text \<open>
  C4, amended. On an existing dashboard and under an unused id, a request without a
  position does this. The dashboards router (position \<open>undefined\<close> or \<open>null\<close>) appends:
  no existing row changes, and the new block gets the highest position plus 1 when that
  highest position is not 0, and position 0 when the dashboard is empty. The handler
  of routes.ts (position \<open>undefined\<close>), when the database accepts what it writes (ids are
  unique, the user exists, the columns take the new row, and every position of the
  dashboard can be incremented within the 32-bit column), stores the new block at
  position 0 whatever its type, after moving every block of the dashboard up by one.
\<close>

theorem omitted_position:
  assumes "d \<in> set (dashboards s)" and "i \<notin> set (map block_id (blocks s))"
  shows "((pos = PUndefined \<or> pos = PNull) \<and> max_position (blocks s) d \<noteq> Some 0 \<longrightarrow>
          router_create_block s d body pos i u
            = ((S201, Some (router_row d body (case max_position (blocks s) d of None \<Rightarrow> 0 | Some m \<Rightarrow> m + 1) i u)),
               s\<lparr>blocks := blocks s
                  @ [router_row d body (case max_position (blocks s) d of None \<Rightarrow> 0 | Some m \<Rightarrow> m + 1) i u]\<rparr>))
       \<and> (distinct (map block_id (blocks s)) \<and> u \<in> set (users s)
            \<and> as_stored (api_row d body 0 i u) = Some r
            \<and> (\<forall>p \<in> set (positions_of (blocks s) d). int32 (p + 1)) \<longrightarrow>
          api_create_block s d body PUndefined i u
            = ((S200, Some r),
               s\<lparr>blocks := sql_update (\<lambda>b. dashboard_id b = d) (\<lambda>b. b\<lparr>position := position b + 1\<rparr>) (blocks s)
                            @ [r]\<rparr>)
          \<and> position r = 0 \<and> dashboard_id r = d \<and> block_id r = i)"
proof (intro conjI impI)
  assume a: "(pos = PUndefined \<or> pos = PNull) \<and> max_position (blocks s) d \<noteq> Some 0"
  then have p: "pos = PUndefined \<or> pos = PNull" and m: "max_position (blocks s) d \<noteq> Some 0"
    by simp_all
  show "router_create_block s d body pos i u
            = ((S201, Some (router_row d body (case max_position (blocks s) d of None \<Rightarrow> 0 | Some m \<Rightarrow> m + 1) i u)),
               s\<lparr>blocks := blocks s
                  @ [router_row d body (case max_position (blocks s) d of None \<Rightarrow> 0 | Some m \<Rightarrow> m + 1) i u]\<rparr>)"
    using router_append[OF p assms(1,2)] int_or_max[OF m] by simp
next
  assume a: "distinct (map block_id (blocks s)) \<and> u \<in> set (users s)
            \<and> as_stored (api_row d body 0 i u) = Some r
            \<and> (\<forall>p \<in> set (positions_of (blocks s) d). int32 (p + 1))"
  then have ids: "distinct (map block_id (blocks s))" and u: "u \<in> set (users s)"
    and r: "as_stored (api_row d body 0 i u) = Some r"
    and fit: "\<And>p. p \<in> set (positions_of (blocks s) d) \<Longrightarrow> int32 (p + 1)"
    by simp_all
  show "api_create_block s d body PUndefined i u
            = ((S200, Some r),
               s\<lparr>blocks := sql_update (\<lambda>b. dashboard_id b = d) (\<lambda>b. b\<lparr>position := position b + 1\<rparr>) (blocks s)
                            @ [r]\<rparr>)"
    using ids assms(2,1) u r fit by (rule api_prepend)
  show "position r = 0" "dashboard_id r = d" "block_id r = i"
    using as_stored_keeps[OF r] by simp_all
qed

theorem omitted_position_witness:
  "positions_of (blocks (snd (router_create_block three_blocks_db 1 chart_body PUndefined ''new'' ''u1''))) 1
     = [0, 1, 2, 3]
   \<and> positions_of (blocks (snd (api_create_block three_blocks_db 1 chart_body PUndefined ''new'' ''u1''))) 1
     = [1, 2, 3, 0]"
proof -
  have b: "blocks three_blocks_db = three_blocks" by (simp add: three_blocks_db_def)
  have 1: "1 \<in> set (dashboards three_blocks_db)" by (simp add: three_blocks_db_def)
  have 2: "''new'' \<notin> set (map block_id (blocks three_blocks_db))"
    by (simp add: three_blocks_db_def three_blocks_def example_block_def)
  have m: "max_position (blocks three_blocks_db) 1 = Some 2"
    by (simp add: max_position_def b three_blocks_positions)
  have ids: "distinct (map block_id (blocks three_blocks_db))" and u: "''u1'' \<in> set (users three_blocks_db)"
    by (simp_all add: three_blocks_db_def three_blocks_def example_block_def)
  have r: "as_stored (api_row 1 chart_body 0 ''new'' ''u1'') = Some (api_row 1 chart_body 0 ''new'' ''u1'')"
    by (rule as_stored_short) (simp_all add: api_row_def chart_body_def str_or_def int_or_def int32_def)
  have fit: "\<forall>p \<in> set (positions_of (blocks three_blocks_db) 1). int32 (p + 1)"
    by (simp add: b three_blocks_positions int32_def)
  have sh: "positions_of (sql_update (\<lambda>b. dashboard_id b = 1) (\<lambda>b. b\<lparr>position := position b + 1\<rparr>) three_blocks) 1
      = [1, 2, 3]"
    by (simp add: sql_update_def positions_of_def sql_select_def three_blocks_def example_block_def)
  show ?thesis
    using omitted_position [OF 1 2, where pos = PUndefined and body = chart_body and u = "''u1''"
        and r = "api_row 1 chart_body 0 ''new'' ''u1''"]
    by (simp add: m ids u r fit positions_of_append) (simp add: b sh three_blocks_positions)
qed

section \<open>Reordering\<close>

lemma reordered_Cons:
  "reordered (Suc i) d xs (if block_id b = x \<and> dashboard_id b = d then b\<lparr>position := int i\<rparr> else b)
   = reordered i d (x # xs) b"
  by (simp add: reordered_def split: option.splits)

lemma reordered_Nil: "reordered i d [] b = b"
  by (simp add: reordered_def)

lemma reorder_from_map:
  "reorder_from i d order tbl = map (reordered i d order) tbl"
proof (induction order arbitrary: i tbl)
  case Nil
  show ?case by (simp add: reordered_Nil[abs_def])
next
  case (Cons x xs)
  have "reorder_from i d (x # xs) tbl
      = map (reordered (Suc i) d xs)
          (map (\<lambda>b. if block_id b = x \<and> dashboard_id b = d then b\<lparr>position := int i\<rparr> else b) tbl)"
    by (simp add: Cons.IH sql_update_def)
  also have "\<dots> = map (reordered i d (x # xs)) tbl"
    unfolding map_map comp_def by (simp only: reordered_Cons)
  finally show ?case .
qed

lemma last_index_from_absent:
  "x \<notin> set ys \<Longrightarrow> last_index_from i x ys = None"
  by (induction ys arbitrary: i) auto


lemma last_index_from_distinct:
  "distinct order \<Longrightarrow> k < length order \<Longrightarrow> last_index_from i (order ! k) order = Some (i + k)"
proof (induction order arbitrary: i k)
  case Nil
  then show ?case by simp
next
  case (Cons y ys)
  show ?case
  proof (cases k)
    case 0
    then show ?thesis using Cons.prems by (simp add: last_index_from_absent)
  next
    case (Suc k')
    then show ?thesis using Cons.prems Cons.IH[of k' "Suc i"] by simp
  qed
qed


text \<open>
  C5, as the code has it: a list that names only one of the three blocks of the
  dashboard is accepted (200) and applied. Block \<open>c\<close> is moved to position 0 and the
  others are left where they were; no mismatch is reported, by the router or by routes.ts.
\<close>

theorem partial_reorder_accepted:
  "router_reorder three_blocks_db 1 (Some [''c''])
     = (S200, three_blocks_db\<lparr>blocks := [example_block ''a'' 1 0, example_block ''b'' 1 1,
                                          example_block ''c'' 1 0]\<rparr>)
   \<and> api_reorder three_blocks 1 (Some [''c''])
     = (S200, [example_block ''a'' 1 0, example_block ''b'' 1 1, example_block ''c'' 1 0])
   \<and> set [''c''] \<noteq> set (ids_of three_blocks 1)"
  by (simp add: router_reorder_def api_reorder_def reorderBlocks_def sql_update_def ids_of_def
      sql_select_def three_blocks_db_def three_blocks_def example_block_def)

text \<open>
  C5, amended. For a list without repeated ids, a reorder gives every block of the
  dashboard whose id is in the list the index of its id as position, leaves every block
  not in the list (and every block of another dashboard) as it is, and ignores ids that
  name no block of the dashboard. It is never refused for a mismatch between the list and
  the dashboard's blocks: routes.ts answers 200, the router 200, or 404 when the dashboard
  does not exist.
\<close>

theorem reorder_assigns_indices:
  assumes "distinct order" and "k < length order"
  shows "(reorderBlocks tbl d order = map (reordered 0 d order) tbl
       \<and> api_reorder tbl d (Some order) = (S200, map (reordered 0 d order) tbl)
       \<and> router_reorder s d (Some order)
           = (if d \<in> set (dashboards s) then (S200, s\<lparr>blocks := map (reordered 0 d order) (blocks s)\<rparr>)
              else (S404, s))
       \<and> last_index_from 0 (order ! k) order = Some k
       \<and> reordered 0 d order (b\<lparr>block_id := order ! k, dashboard_id := d\<rparr>)
           = b\<lparr>block_id := order ! k, dashboard_id := d, position := int k\<rparr>)
       \<and> (block_id c \<notin> set order \<or> dashboard_id c \<noteq> d \<longrightarrow> reordered 0 d order c = c)"
proof (rule conjI)
  show "reorderBlocks tbl d order = map (reordered 0 d order) tbl
       \<and> api_reorder tbl d (Some order) = (S200, map (reordered 0 d order) tbl)
       \<and> router_reorder s d (Some order)
           = (if d \<in> set (dashboards s) then (S200, s\<lparr>blocks := map (reordered 0 d order) (blocks s)\<rparr>)
              else (S404, s))
       \<and> last_index_from 0 (order ! k) order = Some k
       \<and> reordered 0 d order (b\<lparr>block_id := order ! k, dashboard_id := d\<rparr>)
           = b\<lparr>block_id := order ! k, dashboard_id := d, position := int k\<rparr>"
    using last_index_from_distinct[OF assms, of 0]
    by (simp add: reorderBlocks_def api_reorder_def router_reorder_def reorder_from_map reordered_def)
next
  have "reordered 0 d order c = c" if "block_id c \<notin> set order"
    using that by (simp add: reordered_def last_index_from_absent)
  moreover have "reordered 0 d order c = c" if "dashboard_id c \<noteq> d"
    using that by (simp add: reordered_def)
  ultimately show "block_id c \<notin> set order \<or> dashboard_id c \<noteq> d \<longrightarrow> reordered 0 d order c = c"
    by blast
qed

theorem reorder_assigns_indices_witness:
  "reorderBlocks three_blocks 1 [''c'', ''a'', ''b'']
     = [example_block ''a'' 1 1, example_block ''b'' 1 2, example_block ''c'' 1 0]"
proof -
  have 1: "distinct [''c'', ''a'', ''b'']" by simp
  have 2: "0 < length [''c'', ''a'', ''b'']" by simp
  show ?thesis
    using reorder_assigns_indices [OF 1 2, of three_blocks 1]
    by (simp add: reordered_def three_blocks_def example_block_def)
qed

section \<open>Deleting leaves the other positions alone\<close>

lemma positions_of_filter:
  "positions_of (filter P tbl) d = map position (filter (\<lambda>b. P b \<and> dashboard_id b = d) tbl)"
  by (simp add: positions_of_def sql_select_def)

lemma get_block_member:
  assumes ids: "distinct (map block_id tbl)" and mem: "b \<in> set tbl"
  shows "get_block tbl (block_id b) = Some b"
proof (cases "get_block tbl (block_id b)")
  case None
  then have "filter (\<lambda>x. block_id x = block_id b) tbl = []"
    by (simp add: get_block_def sql_select_def split: list.splits)
  then have "\<forall>x \<in> set tbl. block_id x \<noteq> block_id b" by (simp add: filter_empty_conv)
  then show ?thesis using mem by blast
next
  case (Some c)
  then have "c \<in> set tbl \<and> block_id c = block_id b" by (rule get_block_Some)
  then have "c = b" using same_id_same_block[OF ids _ mem] by simp
  then show ?thesis using Some by simp
qed

lemma filter_id_eq:
  assumes ids: "distinct (map block_id tbl)" and mem: "b \<in> set tbl"
  shows "filter (\<lambda>x. block_id x \<noteq> block_id b) tbl = filter (\<lambda>x. x \<noteq> b) tbl"
proof (rule filter_cong[OF refl])
  fix x assume "x \<in> set tbl"
  then show "(block_id x \<noteq> block_id b) = (x \<noteq> b)"
    using same_id_same_block[OF ids _ mem, of x] by auto
qed

lemma router_delete_member:
  assumes "distinct (map block_id tbl)" and "b \<in> set tbl"
  shows "router_delete_block tbl (block_id b) = (S200, filter (\<lambda>x. x \<noteq> b) tbl)"
  using get_block_member[OF assms] filter_id_eq[OF assms]
  by (simp add: router_delete_block_def sql_delete_def)

lemma api_delete_member:
  assumes "distinct (map block_id tbl)" and "b \<in> set tbl"
  shows "api_delete_block tbl (block_id b) = (S200, filter (\<lambda>x. x \<noteq> b) tbl)"
  using filter_id_eq[OF assms] by (simp add: api_delete_block_def deleteBlock_def sql_delete_def)

text \<open>The positions of the block's dashboard after the block is taken out of the table.\<close>

lemma positions_without:
  assumes mem: "b \<in> set tbl" and dist: "distinct (positions_of tbl (dashboard_id b))"
  shows "positions_of (filter (\<lambda>x. x \<noteq> b) tbl) (dashboard_id b)
         = filter (\<lambda>p. p \<noteq> position b) (positions_of tbl (dashboard_id b))"
proof -
  let ?d = "dashboard_id b"
  let ?in = "filter (\<lambda>x. dashboard_id x = ?d) tbl"
  have inj: "inj_on position (set ?in)"
    using dist by (simp add: distinct_map positions_of_def sql_select_def)
  have bin: "b \<in> set ?in" using mem by simp
  have key: "(x \<noteq> b) = (position x \<noteq> position b)" if "x \<in> set ?in" for x
    using inj_on_eq_iff[OF inj that bin] by simp
  have "filter (\<lambda>x. position x \<noteq> position b) ?in = filter (\<lambda>x. x \<noteq> b) ?in"
    by (rule filter_cong[OF refl]) (simp only: key)
  also have "\<dots> = filter (\<lambda>x. x \<noteq> b \<and> dashboard_id x = ?d) tbl"
    by (simp only: filter_filter conj_commute)
  finally have f: "filter (\<lambda>x. x \<noteq> b \<and> dashboard_id x = ?d) tbl
      = filter (\<lambda>x. position x \<noteq> position b) ?in" by (rule sym)
  show ?thesis
    unfolding positions_of_filter f by (simp only: positions_of_def sql_select_def filter_map comp_def)
qed


lemma four_blocks_dense: "dense four_blocks 1"
  by (auto simp add: dense_def is_dense_def positions_of_def sql_select_def four_blocks_def example_block_def)

lemma four_blocks_ids: "distinct (map block_id four_blocks)"
  by (simp add: four_blocks_def example_block_def)

text \<open>
  C2, as the code has it: deleting the block at position 1 of a dashboard with positions
  0, 1, 2, 3 leaves the positions 0, 2, 3, through the router as through the storage layer.
  No survivor is moved.
\<close>

theorem delete_leaves_a_gap:
  "dense four_blocks 1
   \<and> positions_of (snd (router_delete_block four_blocks ''b'')) 1 = [0, 2, 3]
   \<and> positions_of (snd (api_delete_block four_blocks ''b'')) 1 = [0, 2, 3]
   \<and> positions_of (snd (router_delete_block four_blocks ''b'')) 1 \<noteq> [0, 1, 2]"
  by (simp add: four_blocks_dense)
     (simp add: router_delete_block_def api_delete_block_def deleteBlock_def get_block_def
       sql_delete_def positions_of_def sql_select_def four_blocks_def example_block_def)

text \<open>
  C2, amended. In a table with unique ids, deleting a block \<open>b\<close> of a dashboard whose
  \<open>N\<close> blocks occupy the positions \<open>0 .. N - 1\<close> removes that row and changes no other
  row: the survivors keep their positions, which are \<open>0 .. N - 1\<close> without the position
  of \<open>b\<close>. No position is decremented, by the router's handler or by \<open>deleteBlock\<close>.
\<close>

theorem delete_block_keeps_positions:
  assumes ids: "distinct (map block_id tbl)" and mem: "b \<in> set tbl"
    and d: "dense tbl (dashboard_id b)"
  shows "router_delete_block tbl (block_id b) = (S200, filter (\<lambda>x. x \<noteq> b) tbl)
       \<and> api_delete_block tbl (block_id b) = (S200, filter (\<lambda>x. x \<noteq> b) tbl)
       \<and> positions_of (filter (\<lambda>x. x \<noteq> b) tbl) (dashboard_id b)
           = filter (\<lambda>p. p \<noteq> position b) (positions_of tbl (dashboard_id b))
       \<and> set (positions_of (filter (\<lambda>x. x \<noteq> b) tbl) (dashboard_id b))
           = {0 ..< int (length (positions_of tbl (dashboard_id b)))} - {position b}"
proof -
  let ?d = "dashboard_id b"
  have dist: "distinct (positions_of tbl ?d)"
    using d by (simp add: dense_def is_dense_def)
  have p: "positions_of (filter (\<lambda>x. x \<noteq> b) tbl) ?d = filter (\<lambda>p. p \<noteq> position b) (positions_of tbl ?d)"
    by (rule positions_without[OF mem dist])
  have "set (filter (\<lambda>p. p \<noteq> position b) (positions_of tbl ?d))
      = set (positions_of tbl ?d) - {position b}" by auto
  also have "\<dots> = {0 ..< int (length (positions_of tbl ?d))} - {position b}"
    using d by (simp only: dense_def is_dense_def)
  finally have s: "set (positions_of (filter (\<lambda>x. x \<noteq> b) tbl) ?d)
      = {0 ..< int (length (positions_of tbl ?d))} - {position b}"
    by (simp only: p)
  show ?thesis
    by (intro conjI router_delete_member[OF ids mem] api_delete_member[OF ids mem] p s)
qed

theorem delete_block_keeps_positions_witness:
  "router_delete_block four_blocks ''b'' = (S200, filter (\<lambda>x. x \<noteq> example_block ''b'' 1 1) four_blocks)
   \<and> set (positions_of (filter (\<lambda>x. x \<noteq> example_block ''b'' 1 1) four_blocks) 1) = {0, 2, 3}"
proof -
  have m: "example_block ''b'' 1 1 \<in> set four_blocks" by (simp add: four_blocks_def)
  have i: "block_id (example_block ''b'' 1 1) = ''b''" "dashboard_id (example_block ''b'' 1 1) = 1"
    "position (example_block ''b'' 1 1) = 1"
    by (simp_all add: example_block_def)
  have d: "dense four_blocks (dashboard_id (example_block ''b'' 1 1))"
    using four_blocks_dense by (simp add: i)
  have l: "positions_of four_blocks 1 = [0, 1, 2, 3]"
    by (simp add: positions_of_def sql_select_def four_blocks_def example_block_def)
  have "{0 ..< 4} - {1} = {0, 2, 3 :: int}" by auto
  then show ?thesis
    using delete_block_keeps_positions [OF four_blocks_ids m d] by (simp add: i l)
qed

section \<open>Operations that keep a dashboard dense\<close>





subsection \<open>Creating through the router\<close>





subsection \<open>A move\<close>




text \<open>The table after a move, row by row.\<close>

lemma coalesce_row_keeps [simp]:
  "block_id (coalesce_row body pos x) = block_id x"
  "dashboard_id (coalesce_row body pos x) = dashboard_id x"
  "position (coalesce_row body (PVal p) x) = p"
  by (simp_all add: coalesce_row_def)


lemma moved_row_keeps [simp]:
  "block_id (moved_row b i body p x) = block_id x"
  "dashboard_id (moved_row b i body p x) = dashboard_id x"
  by (simp_all add: moved_row_def)






subsection \<open>Deleting\<close>








subsection \<open>A reorder by the dashboard's own ids\<close>

lemma ids_reordered [simp]:
  "block_id (reordered i d order b) = block_id b"
  "dashboard_id (reordered i d order b) = dashboard_id b"
  by (simp_all add: reordered_def split: option.splits)






subsection \<open>The handlers of routes.ts\<close>










text \<open>An update through \<open>PUT\<close> or \<open>PATCH /api/blocks/:id\<close>.\<close>

lemma block_id_set_columns [simp]: "block_id (set_columns u b) = block_id b"
  by (simp add: set_columns_def)






subsection \<open>One operation, then any number\<close>




section \<open>Density along sequences of operations\<close>


text \<open>
  Outside those requests density is lost in other ways too: \<open>POST /api/blocks\<close> without
  a position and the generated block are stored at position 0 beside the block that is
  there, and an update through \<open>PATCH /api/blocks/:id\<close> writes the position it is given.
\<close>

lemma position_written_as_given:
  "positions_of (blocks (run_ops two_dashboards [Api_post (text_post\<lparr>ins_position := None\<rparr>) ''u1''])) 1
     = [0, 1, 2, 0]
   \<and> positions_of (blocks (run_ops two_dashboards
         [Api_generate 1 ''sales'' ''2025-07-12T10:03:35.463Z'' ''g'' ''u1''])) 1 = [0, 1, 2, 0]
   \<and> positions_of (blocks (run_ops two_dashboards [Api_update ''a'' (only_position 7)])) 1
     = [7, 1, 2]"
  by code_simp








end
